theory Spec2Isabelle
  imports Main "HOL-Library.Word" "HOL-Library.AList" "HOL-Library.Signed_Division"
begin

unbundle bit_operations_syntax

section \<open>Values, errors and raw bytes\<close>

text \<open>
  The cache keeps everything in one backing file: a header, fixed-size blocks addressed by
  a signed 64-bit id, and two chains of blocks (metadata, free list).  Machine integers are
  words; \<open>int64_t\<close> and \<open>uint64_t\<close> share the type \<open>64 word\<close> and the signed reading is
  taken with \<open>sint\<close> / \<open><s\<close> exactly where the source compares signed values.
\<close>

type_synonym byte = "8 word"
type_synonym block_id_t = "64 word"

definition INVALID_BLOCK_ID :: block_id_t where
  "INVALID_BLOCK_ID = - 1"

text \<open>
  Every \<open>throw\<close> of the source is a value of \<open>error\<close>.  \<open>UndefinedBehaviour\<close> stands for the
  places where the C++ reads an uninitialised object, overruns a buffer or uses an
  invalidated iterator; \<open>NonTermination\<close> is the outcome of a loop that never exits.
\<close>

datatype error =
    InvalidInputException
  | IOException
  | RuntimeError
  | ConversionException
  | SerializationException
  | UndefinedBehaviour
  | NonTermination

definition bnd :: "error + 'a \<Rightarrow> ('a \<Rightarrow> error + 'b) \<Rightarrow> error + 'b" where
  "bnd m f = (case m of Inl e \<Rightarrow> Inl e | Inr x \<Rightarrow> f x)"

definition run :: "(error + 'a) option \<Rightarrow> error + 'a" where
  "run r = (case r of None \<Rightarrow> Inl NonTermination | Some x \<Rightarrow> x)"

text \<open>\<open>Write<T>\<close> and \<open>Read<T>\<close> copy the object representation: little-endian bytes.\<close>

fun le_bytes :: "nat \<Rightarrow> 'a::len word \<Rightarrow> byte list" where
  "le_bytes 0 w = []"
| "le_bytes (Suc n) w = ucast w # le_bytes n (drop_bit 8 w)"

fun le_word :: "byte list \<Rightarrow> 'a::len word" where
  "le_word [] = 0"
| "le_word (b # bs) = ucast b OR push_bit 8 (le_word bs)"

definition u32_bytes :: "32 word \<Rightarrow> byte list" where
  "u32_bytes w = le_bytes 4 w"

definition u64_bytes :: "64 word \<Rightarrow> byte list" where
  "u64_bytes w = le_bytes 8 w"

text \<open>\<open>std::string\<close> is a byte string; a \<open>char\<close> of HOL is one byte.\<close>

definition string_bytes :: "string \<Rightarrow> byte list" where
  "string_bytes s = map (\<lambda>c. word_of_nat (of_char c)) s"

definition bytes_string :: "byte list \<Rightarrow> string" where
  "bytes_string bs = map (\<lambda>b. char_of (unat b)) bs"

section \<open>The local file system\<close>

text \<open>
  The host's \<open>FileSystem\<close> and \<open>FileHandle\<close>, as far as the block manager uses them: a file is
  its size and the writes it received; a positioned write extends the file (the gap reads
  as zero), a positioned read that cannot deliver every byte raises \<open>IOException\<close>.  The
  file system is the list of its files by path.
\<close>

record disk_file =
  fsize :: int
  extents :: "(int \<times> byte list) list"

type_synonym filesystem = "(string \<times> disk_file) list"

definition empty_file :: disk_file where
  "empty_file = \<lparr>fsize = 0, extents = []\<rparr>"

text \<open>The byte at a position: the latest write that covers it, zero where nothing was written.\<close>

fun fbyte :: "(int \<times> byte list) list \<Rightarrow> int \<Rightarrow> byte" where
  "fbyte [] i = 0"
| "fbyte ((off, buf) # rest) i =
     (if off \<le> i \<and> i < off + int (length buf) then buf ! nat (i - off) else fbyte rest i)"

definition file_write :: "disk_file \<Rightarrow> int \<Rightarrow> byte list \<Rightarrow> disk_file" where
  "file_write f off buf =
     (if buf = [] then f
      else \<lparr>fsize = max (fsize f) (off + int (length buf)),
            extents = (off, buf) # extents f\<rparr>)"

definition file_read :: "disk_file \<Rightarrow> int \<Rightarrow> nat \<Rightarrow> error + byte list" where
  "file_read f off n =
     (if n = 0 then Inr []
      else if off + int n \<le> fsize f
      then Inr (map (\<lambda>i. fbyte (extents f) (off + int i)) [0..<n])
      else Inl IOException)"

section \<open>Block manager\<close>

record BlockCacheDataFileHeader =
  version :: "32 word"
  meta_block :: block_id_t
  hdr_free_list :: block_id_t
  block_count :: "64 word"
  hdr_block_size :: "64 word"

record BlockManager =
  fs :: filesystem
  options_block_size :: "64 word"
  handle :: "string option"
  max_block :: "64 word"
  meta_block_id :: block_id_t
  free_list_id :: block_id_t
  free_list :: "block_id_t list"

datatype LoadResult = NA | LOADED_EXISTING | CREATED_NEW

definition BLOCK_CACHE_DATA_FILE_VERSION_NUMBER :: "32 word" where
  "BLOCK_CACHE_DATA_FILE_VERSION_NUMBER = 2"

definition MAGIC_BYTES :: "byte list" where
  "MAGIC_BYTES = [0x43, 0x4F, 0x47, 0x42, 0x53, 0x54, 0x4F, 0x52]"

definition FILE_HEADER_SIZE :: "64 word" where
  "FILE_HEADER_SIZE = 4096"

definition BLOCK_START :: "64 word" where
  "BLOCK_START = FILE_HEADER_SIZE"

definition Header_Write :: "BlockCacheDataFileHeader \<Rightarrow> byte list" where
  "Header_Write h =
     MAGIC_BYTES @ u32_bytes (version h) @ u64_bytes (meta_block h)
       @ u64_bytes (hdr_free_list h) @ u64_bytes (block_count h) @ u64_bytes (hdr_block_size h)"

definition Header_Size :: nat where
  "Header_Size = 8 + 4 + 8 + 8 + 8 + 8"

definition Header_Read :: "byte list \<Rightarrow> error + BlockCacheDataFileHeader" where
  "Header_Read src =
     (if take 8 src \<noteq> MAGIC_BYTES then Inl IOException
      else Inr \<lparr>version = le_word (take 4 (drop 8 src)),
                meta_block = le_word (take 8 (drop 12 src)),
                hdr_free_list = le_word (take 8 (drop 20 src)),
                block_count = le_word (take 8 (drop 28 src)),
                hdr_block_size = le_word (take 8 (drop 36 src))\<rparr>)"

text \<open>
  The free list is a \<open>std::set<int64_t>\<close>: no duplicates, iterated in ascending signed
  order.  It is kept as the list of its elements in that order.
\<close>

fun set_insert :: "block_id_t \<Rightarrow> block_id_t list \<Rightarrow> block_id_t list" where
  "set_insert x [] = [x]"
| "set_insert x (y # ys) =
     (if x = y then y # ys else if x <s y then x # y # ys else y # set_insert x ys)"

definition IsOpen :: "BlockManager \<Rightarrow> bool" where
  "IsOpen bm = (handle bm \<noteq> None)"

definition ValidateBlockId :: "BlockManager \<Rightarrow> block_id_t \<Rightarrow> error + unit" where
  "ValidateBlockId bm block_id =
     (if block_id = INVALID_BLOCK_ID then Inl InvalidInputException
      else if block_id <s 0 then Inl InvalidInputException
      else if max_block bm \<le> block_id then Inl InvalidInputException
      else Inr ())"

definition ValidateHandle :: "BlockManager \<Rightarrow> error + unit" where
  "ValidateHandle bm = (if IsOpen bm then Inr () else Inl IOException)"

definition GetBlockOffset :: "BlockManager \<Rightarrow> block_id_t \<Rightarrow> error + int" where
  "GetBlockOffset bm block_id =
     bnd (ValidateBlockId bm block_id)
       (\<lambda>_. Inr (uint (BLOCK_START + block_id * options_block_size bm)))"

text \<open>The two operations of an open \<open>FileHandle\<close>, on the file the handle names.\<close>

definition handle_Write :: "BlockManager \<Rightarrow> byte list \<Rightarrow> int \<Rightarrow> error + BlockManager" where
  "handle_Write bm buf off =
     (case handle bm of
        None \<Rightarrow> Inl IOException
      | Some p \<Rightarrow>
          (case map_of (fs bm) p of
             None \<Rightarrow> Inl IOException
           | Some f \<Rightarrow> Inr (bm\<lparr>fs := AList.update p (file_write f off buf) (fs bm)\<rparr>)))"

definition handle_Read :: "BlockManager \<Rightarrow> nat \<Rightarrow> int \<Rightarrow> error + byte list" where
  "handle_Read bm n off =
     (case handle bm of
        None \<Rightarrow> Inl IOException
      | Some p \<Rightarrow>
          (case map_of (fs bm) p of None \<Rightarrow> Inl IOException | Some f \<Rightarrow> file_read f off n))"

definition AllocBlock :: "BlockManager \<Rightarrow> block_id_t \<times> BlockManager" where
  "AllocBlock bm =
     (case free_list bm of
        block_id # rest \<Rightarrow> (block_id, bm\<lparr>free_list := rest\<rparr>)
      | [] \<Rightarrow> (max_block bm, bm\<lparr>max_block := max_block bm + 1\<rparr>))"

definition StoreBlock :: "BlockManager \<Rightarrow> block_id_t \<Rightarrow> byte list \<Rightarrow> error + BlockManager" where
  "StoreBlock bm block_id data =
     bnd (ValidateBlockId bm block_id) (\<lambda>_.
     bnd (ValidateHandle bm) (\<lambda>_.
     bnd (GetBlockOffset bm block_id) (\<lambda>offset.
     handle_Write bm data offset)))"

text \<open>
  \<open>RetrieveBlock\<close> reads \<open>block_size\<close> bytes into the caller's vector whatever its length:
  a shorter vector is overrun, a longer one keeps its tail.
\<close>

definition RetrieveBlock :: "BlockManager \<Rightarrow> block_id_t \<Rightarrow> byte list \<Rightarrow> error + byte list" where
  "RetrieveBlock bm block_id data =
     bnd (ValidateBlockId bm block_id) (\<lambda>_.
     bnd (ValidateHandle bm) (\<lambda>_.
     bnd (GetBlockOffset bm block_id) (\<lambda>offset.
     bnd (handle_Read bm (unat (options_block_size bm)) offset) (\<lambda>got.
       if length data < unat (options_block_size bm) then Inl UndefinedBehaviour
       else Inr (got @ drop (unat (options_block_size bm)) data)))))"

definition MarkBlockAsFree :: "BlockManager \<Rightarrow> block_id_t \<Rightarrow> error + BlockManager" where
  "MarkBlockAsFree bm block_id =
     bnd (ValidateBlockId bm block_id)
       (\<lambda>_. Inr (bm\<lparr>free_list := set_insert block_id (free_list bm)\<rparr>))"

section \<open>Chained writer and reader\<close>

text \<open>
  A chained block is an 8-byte id of the next block followed by the payload.  Both streams
  hold a reference to the block manager; here the manager is passed in and handed back.
\<close>

record MetadataWriter =
  current_block_id :: block_id_t
  mw_offset :: nat
  mw_current_block_data :: "byte list"
  mw_used_metadata_blocks :: "block_id_t list"

record MetadataReader =
  mr_offset :: nat
  mr_current_block_data :: "byte list"
  mr_used_metadata_blocks :: "block_id_t list"

definition SetNextBlockId :: "byte list \<Rightarrow> block_id_t \<Rightarrow> byte list" where
  "SetNextBlockId data block_id = u64_bytes block_id @ drop 8 data"

definition MetadataWriter_new :: "BlockManager \<Rightarrow> block_id_t \<Rightarrow> error + MetadataWriter" where
  "MetadataWriter_new bm start_block_id =
     (if start_block_id = INVALID_BLOCK_ID then Inl InvalidInputException
      else Inr \<lparr>current_block_id = start_block_id,
                mw_offset = 8,
                mw_current_block_data =
                  SetNextBlockId (replicate (unat (options_block_size bm)) 0xFF) INVALID_BLOCK_ID,
                mw_used_metadata_blocks = [start_block_id]\<rparr>)"

definition mw_Flush :: "BlockManager \<Rightarrow> MetadataWriter \<Rightarrow> error + BlockManager" where
  "mw_Flush bm w = StoreBlock bm (current_block_id w) (mw_current_block_data w)"

text \<open>The destructor: write the terminator into the current block and flush it.\<close>

definition MetadataWriter_destroy :: "BlockManager \<Rightarrow> MetadataWriter \<Rightarrow> error + BlockManager" where
  "MetadataWriter_destroy bm w =
     mw_Flush bm (w\<lparr>mw_current_block_data :=
                      SetNextBlockId (mw_current_block_data w) INVALID_BLOCK_ID\<rparr>)"

definition AllocateNewBlock ::
  "BlockManager \<Rightarrow> MetadataWriter \<Rightarrow> error + (BlockManager \<times> MetadataWriter)" where
  "AllocateNewBlock bm w =
     (let (next_block_id, bm1) = AllocBlock bm in
      bnd (if current_block_id w \<noteq> INVALID_BLOCK_ID
           then mw_Flush bm1 (w\<lparr>mw_current_block_data :=
                                   SetNextBlockId (mw_current_block_data w) next_block_id\<rparr>)
           else Inr bm1)
        (\<lambda>bm2. Inr (bm2,
           w\<lparr>current_block_id := next_block_id,
             mw_offset := 8,
             mw_current_block_data :=
               SetNextBlockId (replicate (length (mw_current_block_data w)) 0xFF) INVALID_BLOCK_ID,
             mw_used_metadata_blocks := mw_used_metadata_blocks w @ [next_block_id]\<rparr>)))"

lemma bnd_cong [fundef_cong]:
  "m = m' \<Longrightarrow> (\<And>x. m' = Inr x \<Longrightarrow> f x = f' x) \<Longrightarrow> bnd m f = bnd m' f'"
  by (auto simp: bnd_def split: sum.splits)

text \<open>
  \<open>WriteData\<close>: the loop copies one chunk per round.  \<open>space_left\<close> is an unsigned
  difference, so an offset beyond the block size wraps and the copy overruns the block;
  a round that can copy nothing (a payload of zero bytes) repeats for ever.
\<close>

function mw_WriteData ::
  "BlockManager \<Rightarrow> MetadataWriter \<Rightarrow> byte list \<Rightarrow> error + (BlockManager \<times> MetadataWriter)" where
  "mw_WriteData bm w buf =
     (if buf = [] then Inr (bm, w)
      else if unat (options_block_size bm) < mw_offset w then Inl UndefinedBehaviour
      else
        bnd (if unat (options_block_size bm) - mw_offset w = 0 then AllocateNewBlock bm w
             else Inr (bm, w))
          (\<lambda>(bm1, w1).
             if unat (options_block_size bm1) < mw_offset w1 then Inl UndefinedBehaviour
             else
               (let space_left = unat (options_block_size bm1) - mw_offset w1;
                    chunk_size = min (length buf) space_left
                in if chunk_size = 0 then Inl NonTermination
                   else if length (mw_current_block_data w1) < mw_offset w1 + chunk_size
                   then Inl UndefinedBehaviour
                   else mw_WriteData bm1
                          (w1\<lparr>mw_current_block_data :=
                                 take (mw_offset w1) (mw_current_block_data w1)
                                   @ take chunk_size buf
                                   @ drop (mw_offset w1 + chunk_size) (mw_current_block_data w1),
                               mw_offset := mw_offset w1 + chunk_size\<rparr>)
                          (drop chunk_size buf))))"
  by pat_completeness auto
termination
  by (relation "measure (\<lambda>(bm, w, buf). length buf)") auto

declare mw_WriteData.simps [simp del]

definition MetadataReader_new :: "BlockManager \<Rightarrow> MetadataReader" where
  "MetadataReader_new bm =
     \<lparr>mr_offset = 8,
      mr_current_block_data = replicate (unat (options_block_size bm)) 0xFF,
      mr_used_metadata_blocks = []\<rparr>"

definition GetNextBlockId :: "MetadataReader \<Rightarrow> block_id_t" where
  "GetNextBlockId r = le_word (take 8 (mr_current_block_data r))"

definition ReadBlock ::
  "BlockManager \<Rightarrow> MetadataReader \<Rightarrow> block_id_t \<Rightarrow> error + (bool \<times> MetadataReader)" where
  "ReadBlock bm r block_id =
     (if block_id = INVALID_BLOCK_ID
      then Inr (False,
             r\<lparr>mr_current_block_data := SetNextBlockId (mr_current_block_data r) INVALID_BLOCK_ID,
               mr_offset := length (mr_current_block_data r)\<rparr>)
      else bnd (RetrieveBlock bm block_id (mr_current_block_data r))
             (\<lambda>data. Inr (True,
                r\<lparr>mr_current_block_data := data,
                  mr_offset := 8,
                  mr_used_metadata_blocks := mr_used_metadata_blocks r @ [block_id]\<rparr>)))"

definition MetadataReader_at :: "BlockManager \<Rightarrow> block_id_t \<Rightarrow> error + MetadataReader" where
  "MetadataReader_at bm start_block_id =
     bnd (ReadBlock bm (MetadataReader_new bm) start_block_id) (\<lambda>(_, r). Inr r)"

text \<open>
  \<open>ReadData\<close> returns the bytes it delivered: fewer than asked for when the chain ends
  (the caller's buffer keeps whatever it held beyond them).
\<close>

function mr_ReadData ::
  "BlockManager \<Rightarrow> MetadataReader \<Rightarrow> nat \<Rightarrow> error + (byte list \<times> MetadataReader)" where
  "mr_ReadData bm r read_size =
     (if read_size = 0 then Inr ([], r)
      else
        bnd (if length (mr_current_block_data r) \<le> mr_offset r
             then ReadBlock bm r (GetNextBlockId r)
             else Inr (True, r))
          (\<lambda>(got_block, r1).
             if \<not> got_block then Inr ([], r1)
             else if length (mr_current_block_data r1) \<le> mr_offset r1 then Inl UndefinedBehaviour
             else
               (let space_left = length (mr_current_block_data r1) - mr_offset r1;
                    chunk_size = min read_size space_left
                in bnd (mr_ReadData bm (r1\<lparr>mr_offset := mr_offset r1 + chunk_size\<rparr>)
                          (read_size - chunk_size))
                     (\<lambda>(rest, r2).
                        Inr (take chunk_size (drop (mr_offset r1) (mr_current_block_data r1)) @ rest,
                             r2)))))"
  by pat_completeness auto
termination
  by (relation "measure (\<lambda>(bm, r, n). n)") auto

declare mr_ReadData.simps [simp del]

text \<open>
  \<open>Read<T>\<close> of a \<open>ReadStream\<close> reads into an uninitialised \<open>T\<close>: after a short read the
  value is indeterminate.  The stream is given by its \<open>ReadData\<close>.
\<close>

type_synonym 'r ReadStream = "'r \<Rightarrow> nat \<Rightarrow> error + (byte list \<times> 'r)"
type_synonym 'w WriteStream = "'w \<Rightarrow> byte list \<Rightarrow> error + 'w"

definition Read_u64 :: "'r ReadStream \<Rightarrow> 'r \<Rightarrow> error + (64 word \<times> 'r)" where
  "Read_u64 rd r =
     bnd (rd r 8)
       (\<lambda>(got, r1). if length got < 8 then Inl UndefinedBehaviour else Inr (le_word got, r1))"

definition Read_u32 :: "'r ReadStream \<Rightarrow> 'r \<Rightarrow> error + (32 word \<times> 'r)" where
  "Read_u32 rd r =
     bnd (rd r 4)
       (\<lambda>(got, r1). if length got < 4 then Inl UndefinedBehaviour else Inr (le_word got, r1))"

section \<open>Block manager: chains, free list, header, life cycle\<close>

text \<open>
  \<open>MarkChainedBlocksAsFree\<close> follows the next-pointers until it meets the invalid id.  On a
  cyclic chain it never returns, so the loop is a partial function.
\<close>

partial_function (option) MarkChained_loop ::
  "BlockManager \<Rightarrow> MetadataReader \<Rightarrow> block_id_t \<Rightarrow> nat \<Rightarrow> (error + (BlockManager \<times> nat)) option" where
  "MarkChained_loop bm reader block_id num_deallocated_blocks =
     (case ReadBlock bm reader block_id of
        Inl e \<Rightarrow> Some (Inl e)
      | Inr (got_block, reader1) \<Rightarrow>
          if \<not> got_block then Some (Inr (bm, num_deallocated_blocks))
          else (case MarkBlockAsFree bm block_id of
                  Inl e \<Rightarrow> Some (Inl e)
                | Inr bm1 \<Rightarrow>
                    MarkChained_loop bm1 reader1 (GetNextBlockId reader1)
                      (num_deallocated_blocks + 1)))"

declare MarkChained_loop.simps [code]

definition MarkChainedBlocksAsFree ::
  "BlockManager \<Rightarrow> block_id_t \<Rightarrow> error + (BlockManager \<times> nat)" where
  "MarkChainedBlocksAsFree bm block_id =
     run (MarkChained_loop bm (MetadataReader_new bm) block_id 0)"

definition GetMetaBlockID :: "BlockManager \<Rightarrow> error + (block_id_t \<times> BlockManager)" where
  "GetMetaBlockID bm =
     (if meta_block_id bm \<noteq> INVALID_BLOCK_ID then Inr (meta_block_id bm, bm)
      else
        (let (block_id, bm1) = AllocBlock bm;
             bm2 = bm1\<lparr>meta_block_id := block_id\<rparr>
         in bnd (MetadataWriter_new bm2 block_id) (\<lambda>writer.
            bnd (MetadataWriter_destroy bm2 writer) (\<lambda>bm3.
            Inr (block_id, bm3)))))"

text \<open>
  \<open>SaveFreeList\<close> iterates over the live \<open>std::set\<close> while the writer may take blocks out
  of it.  \<open>AllocBlock\<close> only ever erases the smallest element, so until the element under
  the iterator is itself erased the loop visits exactly the elements that were in the set
  when it started, in order; erasing the element under the iterator invalidates it.
\<close>

fun SaveFreeList_loop ::
  "BlockManager \<Rightarrow> MetadataWriter \<Rightarrow> block_id_t list \<Rightarrow> error + (BlockManager \<times> MetadataWriter)" where
  "SaveFreeList_loop bm writer [] = Inr (bm, writer)"
| "SaveFreeList_loop bm writer (block_id # rest) =
     bnd (mw_WriteData bm writer (u64_bytes block_id))
       (\<lambda>(bm1, writer1).
          if block_id \<notin> set (free_list bm1) then Inl UndefinedBehaviour
          else SaveFreeList_loop bm1 writer1 rest)"

definition SaveFreeList :: "BlockManager \<Rightarrow> error + BlockManager" where
  "SaveFreeList bm =
     bnd (MarkChainedBlocksAsFree bm (free_list_id bm)) (\<lambda>(bm1, _).
       (let bm2 = bm1\<lparr>free_list_id := INVALID_BLOCK_ID\<rparr>
        in if free_list bm2 = [] then Inr bm2
           else
             (let (block_id, bm3) = AllocBlock bm2;
                  bm4 = bm3\<lparr>free_list_id := block_id\<rparr>
              in bnd (MetadataWriter_new bm4 block_id) (\<lambda>writer.
                 bnd (mw_WriteData bm4 writer (u64_bytes (word_of_nat (length (free_list bm4)))))
                   (\<lambda>(bm5, writer1).
                 bnd (SaveFreeList_loop bm5 writer1 (free_list bm5)) (\<lambda>(bm6, writer2).
                 MetadataWriter_destroy bm6 writer2))))))"

fun LoadFreeList_loop :: "BlockManager \<Rightarrow> MetadataReader \<Rightarrow> nat \<Rightarrow> error + BlockManager" where
  "LoadFreeList_loop bm reader n =
     (if n = 0 then Inr bm
      else bnd (Read_u64 (mr_ReadData bm) reader) (\<lambda>(free_block, reader1).
             LoadFreeList_loop (bm\<lparr>free_list := set_insert free_block (free_list bm)\<rparr>)
               reader1 (n - 1)))"

declare LoadFreeList_loop.simps [simp del]

definition LoadFreeList :: "BlockManager \<Rightarrow> error + BlockManager" where
  "LoadFreeList bm =
     (if free_list_id bm = INVALID_BLOCK_ID then Inr bm
      else bnd (MetadataReader_at bm (free_list_id bm)) (\<lambda>reader.
           bnd (Read_u64 (mr_ReadData bm) reader) (\<lambda>(num_blocks, reader1).
           LoadFreeList_loop (bm\<lparr>free_list := []\<rparr>) reader1 (unat num_blocks))))"

definition WriteHeader :: "BlockManager \<Rightarrow> error + BlockManager" where
  "WriteHeader bm =
     bnd (ValidateHandle bm) (\<lambda>_.
       handle_Write bm
         (Header_Write \<lparr>version = BLOCK_CACHE_DATA_FILE_VERSION_NUMBER,
                        meta_block = meta_block_id bm,
                        hdr_free_list = free_list_id bm,
                        block_count = max_block bm,
                        hdr_block_size = options_block_size bm\<rparr>) 0)"

definition BlockManager_Flush :: "BlockManager \<Rightarrow> error + BlockManager" where
  "BlockManager_Flush bm =
     bnd (ValidateHandle bm) (\<lambda>_. bnd (SaveFreeList bm) WriteHeader)"

definition CloseInternal :: "BlockManager \<Rightarrow> BlockManager" where
  "CloseInternal bm =
     bm\<lparr>max_block := 0, meta_block_id := INVALID_BLOCK_ID, free_list_id := INVALID_BLOCK_ID,
        free_list := [], handle := None\<rparr>"

definition BlockManager_Close :: "BlockManager \<Rightarrow> error + BlockManager" where
  "BlockManager_Close bm =
     bnd (if IsOpen bm then BlockManager_Flush bm else Inr bm) (\<lambda>bm1. Inr (CloseInternal bm1))"

definition BlockManager_Clear :: "BlockManager \<Rightarrow> BlockManager" where
  "BlockManager_Clear bm =
     (case handle bm of
        None \<Rightarrow> CloseInternal bm
      | Some path \<Rightarrow>
          (let bm1 = CloseInternal bm
           in if map_of (fs bm1) path \<noteq> None then bm1\<lparr>fs := AList.delete path (fs bm1)\<rparr>
              else bm1))"

text \<open>
  The constructor rejects a block size below 16 bytes; every manager starts closed.  The
  members \<open>max_block\<close>, \<open>meta_block_id\<close> and \<open>free_list_id\<close> have no initialiser; they start
  with the values that \<open>CloseInternal\<close> gives them, which \<open>CreateNewDatabase\<close> and
  \<open>LoadExistingDatabase\<close> run before they use them.
\<close>

definition BlockManager_new :: "filesystem \<Rightarrow> 64 word \<Rightarrow> error + BlockManager" where
  "BlockManager_new files bsz =
     (if bsz < 16 then Inl IOException
      else Inr \<lparr>fs = files, options_block_size = bsz, handle = None, max_block = 0,
                meta_block_id = INVALID_BLOCK_ID, free_list_id = INVALID_BLOCK_ID,
                free_list = []\<rparr>)"

text \<open>
  \<open>CreateNewDatabase\<close> fills every header field but \<open>block_size\<close>; the argument
  \<open>indeterminate\<close> is the value that uninitialised member happens to hold.
\<close>

definition CreateNewDatabase ::
  "64 word \<Rightarrow> BlockManager \<Rightarrow> string
     \<Rightarrow> error + (BlockCacheDataFileHeader \<times> LoadResult \<times> BlockManager)" where
  "CreateNewDatabase indeterminate bm path =
     bnd (BlockManager_Close bm) (\<lambda>bm1.
       if map_of (fs bm1) path \<noteq> None then Inl IOException
       else
         (let bm2 = bm1\<lparr>fs := AList.update path empty_file (fs bm1), handle := Some path\<rparr>;
              header = \<lparr>version = BLOCK_CACHE_DATA_FILE_VERSION_NUMBER,
                        meta_block = meta_block_id bm2,
                        hdr_free_list = free_list_id bm2,
                        block_count = max_block bm2,
                        hdr_block_size = indeterminate\<rparr>
          in bnd (handle_Write bm2 (Header_Write header) 0) (\<lambda>bm3.
             Inr (header, CREATED_NEW, bm3))))"

definition LoadExistingDatabase ::
  "BlockManager \<Rightarrow> string \<Rightarrow> error + (BlockCacheDataFileHeader \<times> LoadResult \<times> BlockManager)" where
  "LoadExistingDatabase bm path =
     bnd (BlockManager_Close bm) (\<lambda>bm1.
       if map_of (fs bm1) path = None then Inl IOException
       else
         (let bm2 = bm1\<lparr>handle := Some path\<rparr>
          in bnd (handle_Read bm2 Header_Size 0) (\<lambda>header_data.
             bnd (Header_Read header_data) (\<lambda>header.
               (let bm3 = bm2\<lparr>max_block := block_count header,
                               meta_block_id := meta_block header,
                               free_list_id := hdr_free_list header\<rparr>
                in if hdr_block_size header \<noteq> options_block_size bm3 then Inl IOException
                   else bnd (LoadFreeList bm3) (\<lambda>bm4.
                        Inr (header, LOADED_EXISTING, bm4)))))))"

definition LoadOrCreateDatabase ::
  "64 word \<Rightarrow> BlockManager \<Rightarrow> string
     \<Rightarrow> error + (BlockCacheDataFileHeader \<times> LoadResult \<times> BlockManager)" where
  "LoadOrCreateDatabase indeterminate bm path =
     (if map_of (fs bm) path \<noteq> None then LoadExistingDatabase bm path
      else CreateNewDatabase indeterminate bm path)"

section \<open>Metadata manager\<close>

text \<open>
  The three indexes are \<open>unordered_map\<close>s.  Each is kept as an association list with
  \<open>map_of\<close> for lookup, \<open>AList.update\<close> for \<open>m[k] = v\<close> and \<open>AList.delete\<close> for \<open>erase\<close>;
  the order of the list is the order in which the container is iterated, which C++ leaves
  open.

  Modelled from the spec: the declaration of \<open>FileMetadata\<close> that goes with
  \<open>metadata_manager.cpp\<close> is not among the sources (the one that is there is older: it has
  \<open>time_t last_modified\<close> and no legacy field).  Its fields are the ones that file
  reads and writes (\<open>file_size\<close>, \<open>blocks\<close>, \<open>__last_modified_deprecated\<close>,
  \<open>last_modified\<close>), its defaults are the ones the unit tests require (size 0, no blocks,
  legacy time 0, \<open>last_modified\<close> the epoch), and the epoch is the timestamp 0 that stands
  for "unknown".  \<open>time_t\<close> is 64 bits wide.
\<close>

type_synonym BlockKey = "string \<times> 64 word"

record FileMetadataBlockInfo =
  block_index :: "64 word"
  block_id :: block_id_t
  checksum :: "64 word"

record FileMetadata =
  file_size :: "64 word"
  blocks :: "(block_id_t \<times> FileMetadataBlockInfo) list"
  last_modified_deprecated :: "64 word"
  last_modified :: "64 word"

definition epoch :: "64 word" where
  "epoch = 0"

definition FileMetadata_default :: FileMetadata where
  "FileMetadata_default =
     \<lparr>file_size = 0, blocks = [], last_modified_deprecated = 0, last_modified = epoch\<rparr>"

text \<open>
  \<open>lru_map\<close> maps a block id to an iterator into \<open>lru_list\<close>.  A list node is a pair of a
  node handle and the block id it holds; an iterator is the handle; \<open>lru_next_node\<close> is the
  next unused handle.
\<close>

record MetadataManager =
  block_mapping :: "(BlockKey \<times> block_id_t) list"
  reverse_block_mapping :: "(block_id_t \<times> BlockKey) list"
  files_metadata :: "(string \<times> FileMetadata) list"
  max_cache_size :: "64 word"
  lru_list :: "(nat \<times> block_id_t) list"
  lru_map :: "(block_id_t \<times> nat) list"
  lru_next_node :: nat

definition MetadataManager_new :: MetadataManager where
  "MetadataManager_new =
     \<lparr>block_mapping = [], reverse_block_mapping = [], files_metadata = [],
      max_cache_size = 0x7FFFFFFFFFFFFFFF, lru_list = [], lru_map = [], lru_next_node = 0\<rparr>"

definition MetadataManager_Clear :: "MetadataManager \<Rightarrow> MetadataManager" where
  "MetadataManager_Clear m =
     m\<lparr>block_mapping := [], reverse_block_mapping := [], files_metadata := [],
       lru_list := [], lru_map := []\<rparr>"

definition GetBlockId :: "MetadataManager \<Rightarrow> string \<Rightarrow> 64 word \<Rightarrow> block_id_t" where
  "GetBlockId m file_path idx =
     (case map_of (block_mapping m) (file_path, idx) of
        Some b \<Rightarrow> b
      | None \<Rightarrow> INVALID_BLOCK_ID)"

text \<open>\<open>files_metadata[file_path]\<close>: the entry, created with the defaults when it is missing.\<close>

definition file_entry :: "MetadataManager \<Rightarrow> string \<Rightarrow> FileMetadata" where
  "file_entry m file_path =
     (case map_of (files_metadata m) file_path of
        Some fm \<Rightarrow> fm
      | None \<Rightarrow> FileMetadata_default)"

definition RegisterBlock ::
  "MetadataManager \<Rightarrow> string \<Rightarrow> 64 word \<Rightarrow> block_id_t \<Rightarrow> 64 word \<Rightarrow> MetadataManager" where
  "RegisterBlock m file_path idx b cks =
     (let key = (file_path, idx);
          file_metadata = file_entry m file_path;
          block_info = \<lparr>block_index = idx, block_id = b, checksum = cks\<rparr>
      in m\<lparr>reverse_block_mapping := AList.update b key (reverse_block_mapping m),
           block_mapping := AList.update key b (block_mapping m),
           files_metadata :=
             AList.update file_path
               (file_metadata\<lparr>blocks := AList.update b block_info (blocks file_metadata)\<rparr>)
               (files_metadata m)\<rparr>)"

definition UnregisterBlock :: "MetadataManager \<Rightarrow> block_id_t \<Rightarrow> MetadataManager" where
  "UnregisterBlock m b =
     (let m1 =
        (case map_of (reverse_block_mapping m) b of
           None \<Rightarrow> m
         | Some key \<Rightarrow>
             m\<lparr>files_metadata :=
                 (case map_of (files_metadata m) (fst key) of
                    None \<Rightarrow> files_metadata m
                  | Some fm \<Rightarrow>
                      (if AList.delete b (blocks fm) = []
                       then AList.delete (fst key) (files_metadata m)
                       else AList.update (fst key) (fm\<lparr>blocks := AList.delete b (blocks fm)\<rparr>)
                              (files_metadata m))),
               block_mapping := AList.delete key (block_mapping m),
               reverse_block_mapping := AList.delete b (reverse_block_mapping m)\<rparr>)
      in (case map_of (lru_map m1) b of
            None \<Rightarrow> m1
          | Some node \<Rightarrow>
              m1\<lparr>lru_map := AList.delete b (lru_map m1),
                 lru_list := filter (\<lambda>(h, _). h \<noteq> node) (lru_list m1)\<rparr>))"

definition SetFileSize :: "MetadataManager \<Rightarrow> string \<Rightarrow> 64 word \<Rightarrow> MetadataManager" where
  "SetFileSize m file_path sz =
     m\<lparr>files_metadata :=
         AList.update file_path ((file_entry m file_path)\<lparr>file_size := sz\<rparr>) (files_metadata m)\<rparr>"

definition SetFileLastModified :: "MetadataManager \<Rightarrow> string \<Rightarrow> 64 word \<Rightarrow> MetadataManager" where
  "SetFileLastModified m file_path ts =
     m\<lparr>files_metadata :=
         AList.update file_path ((file_entry m file_path)\<lparr>last_modified := ts\<rparr>)
           (files_metadata m)\<rparr>"

definition GetFileMetadata :: "MetadataManager \<Rightarrow> string \<Rightarrow> FileMetadata option" where
  "GetFileMetadata m file_path = map_of (files_metadata m) file_path"

definition UpdateLRUOrder :: "MetadataManager \<Rightarrow> block_id_t \<Rightarrow> MetadataManager" where
  "UpdateLRUOrder m b =
     (let l = (case map_of (lru_map m) b of
                 Some node \<Rightarrow> filter (\<lambda>(h, _). h \<noteq> node) (lru_list m)
               | None \<Rightarrow> lru_list m)
      in m\<lparr>lru_list := (lru_next_node m, b) # l,
           lru_map := AList.update b (lru_next_node m) (lru_map m),
           lru_next_node := lru_next_node m + 1\<rparr>)"

text \<open>
  \<open>EvictLRUBlockIfNeeded\<close> loops while the map is larger than the limit.  A round with an
  empty list changes nothing, and a round whose victim is not in \<open>lru_map\<close> does not shrink
  the map: the loop need not end, so it is a partial function.  The callback works on the
  storage \<open>'s\<close> it captures.
\<close>

partial_function (option) EvictLRU_loop ::
  "('s \<Rightarrow> block_id_t \<Rightarrow> error + 's) \<Rightarrow> 's \<Rightarrow> MetadataManager
     \<Rightarrow> (error + ('s \<times> MetadataManager)) option" where
  "EvictLRU_loop remove_from_storage_func st m =
     (if max_cache_size m < word_of_nat (length (lru_map m))
      then (if lru_list m \<noteq> []
            then (case remove_from_storage_func st (snd (last (lru_list m))) of
                    Inl e \<Rightarrow> Some (Inl e)
                  | Inr st1 \<Rightarrow>
                      EvictLRU_loop remove_from_storage_func st1
                        (UnregisterBlock m (snd (last (lru_list m)))))
            else EvictLRU_loop remove_from_storage_func st m)
      else Some (Inr (st, m)))"

declare EvictLRU_loop.simps [code]

definition EvictLRUBlockIfNeeded ::
  "('s \<Rightarrow> block_id_t \<Rightarrow> error + 's) \<Rightarrow> 's \<Rightarrow> MetadataManager
     \<Rightarrow> error + ('s \<times> MetadataManager)" where
  "EvictLRUBlockIfNeeded remove_from_storage_func st m =
     run (EvictLRU_loop remove_from_storage_func st m)"

definition SetMaxCacheSize :: "MetadataManager \<Rightarrow> 64 word \<Rightarrow> MetadataManager" where
  "SetMaxCacheSize m max_cache_size_in_blocks = m\<lparr>max_cache_size := max_cache_size_in_blocks\<rparr>"

definition GetBlockInfo ::
  "MetadataManager \<Rightarrow> string \<Rightarrow> block_id_t \<Rightarrow> error + FileMetadataBlockInfo" where
  "GetBlockInfo m file_path b =
     (case map_of (files_metadata m) file_path of
        None \<Rightarrow> Inl RuntimeError
      | Some fm \<Rightarrow>
          (case map_of (blocks fm) b of
             None \<Rightarrow> Inl RuntimeError
           | Some info \<Rightarrow> Inr info))"

definition GetLRUState :: "MetadataManager \<Rightarrow> BlockKey list" where
  "GetLRUState m =
     concat (map (\<lambda>(_, b). case map_of (reverse_block_mapping m) b of
                               Some key \<Rightarrow> [key]
                             | None \<Rightarrow> [])
                 (lru_list m))"

subsection \<open>Serialization\<close>

text \<open>
  \<open>FileMetadata::Write\<close> and \<open>Read\<close> work on any stream of the host; \<open>WriteMetadata\<close> and
  \<open>ReadMetadata\<close> are handed the chained writer and reader.  All of them are written once,
  over the stream's \<open>WriteData\<close> or \<open>ReadData\<close>.
\<close>

fun Write_blocks ::
  "'w WriteStream \<Rightarrow> 'w \<Rightarrow> (block_id_t \<times> FileMetadataBlockInfo) list \<Rightarrow> error + 'w" where
  "Write_blocks wr ser [] = Inr ser"
| "Write_blocks wr ser ((_, block) # rest) =
     bnd (wr ser (u64_bytes (block_index block))) (\<lambda>ser1.
     bnd (wr ser1 (u64_bytes (block_id block))) (\<lambda>ser2.
     bnd (wr ser2 (u64_bytes (checksum block))) (\<lambda>ser3.
     Write_blocks wr ser3 rest)))"

definition FileMetadata_Write :: "'w WriteStream \<Rightarrow> 'w \<Rightarrow> FileMetadata \<Rightarrow> error + 'w" where
  "FileMetadata_Write wr ser fm =
     bnd (wr ser (u64_bytes (file_size fm))) (\<lambda>ser1.
     bnd (wr ser1 (u32_bytes (word_of_nat (length (blocks fm))))) (\<lambda>ser2.
     bnd (Write_blocks wr ser2 (blocks fm)) (\<lambda>ser3.
     bnd (wr ser3 (u64_bytes (last_modified_deprecated fm))) (\<lambda>ser4.
     wr ser4 (u64_bytes (last_modified fm))))))"

fun ReadV1_blocks ::
  "'r ReadStream \<Rightarrow> 'r \<Rightarrow> nat \<Rightarrow> FileMetadata \<Rightarrow> error + (FileMetadata \<times> 'r)" where
  "ReadV1_blocks rd src n out =
     (if n = 0 then Inr (out, src)
      else
        bnd (Read_u64 rd src) (\<lambda>(idx, src1).
        bnd (Read_u64 rd src1) (\<lambda>(b, src2).
        bnd (Read_u64 rd src2) (\<lambda>(cks, src3).
        ReadV1_blocks rd src3 (n - 1)
          (out\<lparr>blocks := AList.update b \<lparr>block_index = idx, block_id = b, checksum = cks\<rparr>
                            (blocks out)\<rparr>)))))"

declare ReadV1_blocks.simps [simp del]

definition ReadV1 ::
  "'r ReadStream \<Rightarrow> 'r \<Rightarrow> FileMetadata \<Rightarrow> error + (FileMetadata \<times> 'r)" where
  "ReadV1 rd src out =
     bnd (Read_u64 rd src) (\<lambda>(sz, src1).
     bnd (Read_u32 rd src1) (\<lambda>(num_blocks, src2).
     ReadV1_blocks rd src2 (unat num_blocks) (out\<lparr>file_size := sz\<rparr>)))"

text \<open>
  \<open>Timestamp::FromTimeT\<close> belongs to the host; it is the parameter \<open>from_time_t\<close>, which may
  raise.
\<close>

definition ReadV2 ::
  "(64 word \<Rightarrow> error + 64 word) \<Rightarrow> 'r ReadStream \<Rightarrow> 'r \<Rightarrow> FileMetadata
     \<Rightarrow> error + (FileMetadata \<times> 'r)" where
  "ReadV2 from_time_t rd src out =
     bnd (ReadV1 rd src out) (\<lambda>(out1, src1).
     bnd (Read_u64 rd src1) (\<lambda>(legacy, src2).
       if legacy \<noteq> 0
       then bnd (from_time_t legacy) (\<lambda>ts.
              Inr (out1\<lparr>last_modified_deprecated := legacy, last_modified := ts\<rparr>, src2))
       else Inr (out1\<lparr>last_modified_deprecated := legacy\<rparr>, src2)))"

definition ReadV3 ::
  "(64 word \<Rightarrow> error + 64 word) \<Rightarrow> 'r ReadStream \<Rightarrow> 'r \<Rightarrow> FileMetadata
     \<Rightarrow> error + (FileMetadata \<times> 'r)" where
  "ReadV3 from_time_t rd src out =
     bnd (ReadV2 from_time_t rd src out) (\<lambda>(out1, src1).
     bnd (Read_u64 rd src1) (\<lambda>(ts, src2).
     Inr (out1\<lparr>last_modified := ts\<rparr>, src2)))"

definition FileMetadata_Read ::
  "(64 word \<Rightarrow> error + 64 word) \<Rightarrow> 'r ReadStream \<Rightarrow> 'r \<Rightarrow> 32 word
     \<Rightarrow> error + (FileMetadata \<times> 'r)" where
  "FileMetadata_Read from_time_t rd src ver =
     (if ver = 1 then ReadV1 rd src FileMetadata_default
      else if ver = 2 then ReadV2 from_time_t rd src FileMetadata_default
      else if ver = 3 then ReadV3 from_time_t rd src FileMetadata_default
      else Inl IOException)"

fun Write_files ::
  "'w WriteStream \<Rightarrow> 'w \<Rightarrow> (string \<times> FileMetadata) list \<Rightarrow> error + 'w" where
  "Write_files wr ser [] = Inr ser"
| "Write_files wr ser ((file_path, fm) # rest) =
     (let path_size = (word_of_nat (length file_path) :: 32 word)
      in bnd (wr ser (u32_bytes path_size)) (\<lambda>ser1.
         bnd (wr ser1 (take (unat path_size) (string_bytes file_path))) (\<lambda>ser2.
         bnd (FileMetadata_Write wr ser2 fm) (\<lambda>ser3.
         Write_files wr ser3 rest))))"

fun Write_lru :: "'w WriteStream \<Rightarrow> 'w \<Rightarrow> (nat \<times> block_id_t) list \<Rightarrow> error + 'w" where
  "Write_lru wr ser [] = Inr ser"
| "Write_lru wr ser ((_, b) # rest) =
     bnd (wr ser (u64_bytes b)) (\<lambda>ser1. Write_lru wr ser1 rest)"

definition WriteMetadata :: "'w WriteStream \<Rightarrow> 'w \<Rightarrow> MetadataManager \<Rightarrow> error + 'w" where
  "WriteMetadata wr writer m =
     bnd (wr writer (u64_bytes (word_of_nat (length (files_metadata m))))) (\<lambda>writer1.
     bnd (Write_files wr writer1 (files_metadata m)) (\<lambda>writer2.
     bnd (wr writer2 (u64_bytes (word_of_nat (length (lru_list m))))) (\<lambda>writer3.
     Write_lru wr writer3 (lru_list m))))"

fun Read_block_mapping ::
  "string \<Rightarrow> (block_id_t \<times> FileMetadataBlockInfo) list \<Rightarrow> MetadataManager \<Rightarrow> MetadataManager" where
  "Read_block_mapping file_path [] m = m"
| "Read_block_mapping file_path ((_, block) # rest) m =
     Read_block_mapping file_path rest
       (m\<lparr>block_mapping :=
            AList.update (file_path, block_index block) (block_id block) (block_mapping m),
          reverse_block_mapping :=
            AList.update (block_id block) (file_path, block_index block)
              (reverse_block_mapping m)\<rparr>)"

text \<open>
  The path is read into a string of \<open>path_size\<close> zero bytes: a short read leaves the rest
  zero.
\<close>

fun Read_files ::
  "(64 word \<Rightarrow> error + 64 word) \<Rightarrow> 'r ReadStream \<Rightarrow> 'r \<Rightarrow> 32 word \<Rightarrow> nat \<Rightarrow> MetadataManager
     \<Rightarrow> error + (MetadataManager \<times> 'r)" where
  "Read_files from_time_t rd reader ver n m =
     (if n = 0 then Inr (m, reader)
      else
        bnd (Read_u32 rd reader) (\<lambda>(path_size, reader1).
        bnd (rd reader1 (unat path_size)) (\<lambda>(got, reader2).
          (let file_path = bytes_string (got @ replicate (unat path_size - length got) 0)
           in bnd (FileMetadata_Read from_time_t rd reader2 ver) (\<lambda>(file_metadata, reader3).
              Read_files from_time_t rd reader3 ver (n - 1)
                (Read_block_mapping file_path (blocks file_metadata)
                   (m\<lparr>files_metadata :=
                        AList.update file_path file_metadata (files_metadata m)\<rparr>)))))))"

declare Read_files.simps [simp del]

fun Read_lru ::
  "'r ReadStream \<Rightarrow> 'r \<Rightarrow> nat \<Rightarrow> MetadataManager \<Rightarrow> error + (MetadataManager \<times> 'r)" where
  "Read_lru rd reader n m =
     (if n = 0 then Inr (m, reader)
      else
        bnd (Read_u64 rd reader) (\<lambda>(b, reader1).
        Read_lru rd reader1 (n - 1)
          (m\<lparr>lru_list := lru_list m @ [(lru_next_node m, b)],
             lru_map := AList.update b (lru_next_node m) (lru_map m),
             lru_next_node := lru_next_node m + 1\<rparr>)))"

declare Read_lru.simps [simp del]

definition ReadMetadata ::
  "(64 word \<Rightarrow> error + 64 word) \<Rightarrow> 'r ReadStream \<Rightarrow> 'r \<Rightarrow> 32 word \<Rightarrow> MetadataManager
     \<Rightarrow> error + (MetadataManager \<times> 'r)" where
  "ReadMetadata from_time_t rd reader ver m =
     (let m1 = m\<lparr>files_metadata := [], block_mapping := [], reverse_block_mapping := []\<rparr>
      in bnd (Read_u64 rd reader) (\<lambda>(num_files, reader1).
         bnd (Read_files from_time_t rd reader1 ver (unat num_files) m1) (\<lambda>(m2, reader2).
         bnd (Read_u64 rd reader2) (\<lambda>(lru_size, reader3).
         Read_lru rd reader3 (unat lru_size) (m2\<lparr>lru_list := [], lru_map := []\<rparr>)))))"

section \<open>Cache coordinator\<close>

text \<open>
  What the cache takes from its host: \<open>duckdb::Checksum\<close>, \<open>Timestamp::FromTimeT\<close> and the
  value an uninitialised header field holds.
\<close>

record host =
  Checksum :: "byte list \<Rightarrow> 64 word"
  FromTimeT :: "64 word \<Rightarrow> error + 64 word"
  indeterminate :: "64 word"

text \<open>
  Both managers are owned through pointers that are never null after construction, so the
  null checks of \<open>Close\<close> and \<open>Flush\<close> always succeed and are left out.  The recursive mutex
  serialises the public methods; one call is one step of the model.
\<close>

record Cache =
  block_size :: "64 word"
  dirty :: "64 word"
  path :: string
  opened :: bool
  block_mgr :: BlockManager
  metadata_mgr :: MetadataManager
  current_cache_users :: "64 word"

text \<open>
  \<open>NumBlocksFromSize\<close> computes in \<open>int64_t\<close>: a sum outside the type, a division by zero
  and the quotient of the least value by \<open>-1\<close> are undefined.
\<close>

definition int64_range :: "int \<Rightarrow> bool" where
  "int64_range i = (- 9223372036854775808 \<le> i \<and> i \<le> 9223372036854775807)"

definition NumBlocksFromSize :: "64 word \<Rightarrow> 64 word \<Rightarrow> error + 64 word" where
  "NumBlocksFromSize cache_size_in_bytes bsz =
     (let total = sint cache_size_in_bytes + sint bsz
      in if \<not> int64_range total \<or> \<not> int64_range (total - 1) \<or> bsz = 0
            \<or> (total - 1 = - 9223372036854775808 \<and> sint bsz = - 1)
         then Inl UndefinedBehaviour
         else Inr (word_of_int ((total - 1) sdiv sint bsz)))"

definition Cache_new :: "filesystem \<Rightarrow> 64 word \<Rightarrow> error + Cache" where
  "Cache_new files bsz =
     bnd (BlockManager_new files bsz) (\<lambda>bm.
       Inr \<lparr>block_size = bsz, dirty = 0, path = [], opened = False, block_mgr = bm,
            metadata_mgr = MetadataManager_new, current_cache_users = 0\<rparr>)"

definition IsDirty :: "Cache \<Rightarrow> bool" where
  "IsDirty c = (dirty c \<noteq> 0)"

definition SetDirty :: "Cache \<Rightarrow> bool \<Rightarrow> Cache" where
  "SetDirty c flag = (if flag then c\<lparr>dirty := dirty c + 1\<rparr> else c\<lparr>dirty := 0\<rparr>)"

definition mw_stream :: "(BlockManager \<times> MetadataWriter) WriteStream" where
  "mw_stream = (\<lambda>(bm, writer) buf. mw_WriteData bm writer buf)"

definition Cache_Open :: "host \<Rightarrow> Cache \<Rightarrow> string \<Rightarrow> error + Cache" where
  "Cache_Open h c open_path =
     (if opened c then Inr c
      else if open_path = [] then Inl InvalidInputException
      else
        bnd (LoadOrCreateDatabase (indeterminate h) (block_mgr c) open_path)
          (\<lambda>(header, load_result, bm1).
        bnd (if load_result = LOADED_EXISTING
             then bnd (GetMetaBlockID bm1) (\<lambda>(meta, bm2).
                  bnd (MetadataReader_at bm2 meta) (\<lambda>reader.
                  bnd (ReadMetadata (FromTimeT h) (mr_ReadData bm2) reader (version header)
                         (metadata_mgr c)) (\<lambda>(mm, _).
                  Inr (bm2, mm))))
             else Inr (bm1, metadata_mgr c))
          (\<lambda>(bm3, mm).
        Inr (SetDirty (c\<lparr>block_mgr := bm3, metadata_mgr := mm, path := open_path,
                         opened := True\<rparr>) True))))"

text \<open>\<open>Flush\<close> in two parts: the early return, and the work that follows it.\<close>

definition Cache_Flush_work :: "Cache \<Rightarrow> error + Cache" where
  "Cache_Flush_work c =
     bnd (GetMetaBlockID (block_mgr c)) (\<lambda>(meta, bm1).
     bnd (MetadataReader_at bm1 meta) (\<lambda>reader.
     bnd (MarkChainedBlocksAsFree bm1 (GetNextBlockId reader)) (\<lambda>(bm2, _).
     bnd (GetMetaBlockID bm2) (\<lambda>(meta2, bm3).
     bnd (MetadataWriter_new bm3 meta2) (\<lambda>writer.
     bnd (WriteMetadata mw_stream (bm3, writer) (metadata_mgr c)) (\<lambda>(bm4, writer1).
     bnd (MetadataWriter_destroy bm4 writer1) (\<lambda>bm5.
     bnd (BlockManager_Flush bm5) (\<lambda>bm6.
     Inr (SetDirty (c\<lparr>block_mgr := bm6\<rparr>) False)))))))))"

definition Cache_Flush :: "Cache \<Rightarrow> error + Cache" where
  "Cache_Flush c = (if \<not> opened c \<or> \<not> IsDirty c then Inr c else Cache_Flush_work c)"

definition Cache_Close :: "Cache \<Rightarrow> error + Cache" where
  "Cache_Close c =
     (if \<not> opened c then Inr c
      else if current_cache_users c \<noteq> 0 then Inl IOException
      else
        bnd (Cache_Flush c) (\<lambda>c1.
        bnd (BlockManager_Close (block_mgr c1)) (\<lambda>bm.
        Inr (SetDirty (c1\<lparr>block_mgr := bm,
                          metadata_mgr := MetadataManager_Clear (metadata_mgr c1),
                          opened := False, path := []\<rparr>) False))))"

definition Cache_Clear :: "Cache \<Rightarrow> error + Cache" where
  "Cache_Clear c =
     (if opened c
      then (if current_cache_users c \<noteq> 0 then Inl IOException
            else Inr (SetDirty (c\<lparr>block_mgr := BlockManager_Clear (block_mgr c),
                                   metadata_mgr := MetadataManager_Clear (metadata_mgr c),
                                   opened := False\<rparr>) False))
      else Inr (SetDirty c False))"

definition RetrieveFileMetadata :: "Cache \<Rightarrow> string \<Rightarrow> FileMetadata option" where
  "RetrieveFileMetadata c file_path = GetFileMetadata (metadata_mgr c) file_path"

fun Evict_loop ::
  "BlockManager \<Rightarrow> MetadataManager \<Rightarrow> block_id_t list \<Rightarrow> bool
     \<Rightarrow> error + (BlockManager \<times> MetadataManager \<times> bool)" where
  "Evict_loop bm mm [] evicted = Inr (bm, mm, evicted)"
| "Evict_loop bm mm (b # rest) evicted =
     bnd (MarkBlockAsFree bm b) (\<lambda>bm1. Evict_loop bm1 (UnregisterBlock mm b) rest True)"

definition Cache_Evict :: "Cache \<Rightarrow> string \<Rightarrow> error + Cache" where
  "Cache_Evict c filepath =
     (case RetrieveFileMetadata c filepath of
        None \<Rightarrow> Inr c
      | Some md \<Rightarrow>
          bnd (Evict_loop (block_mgr c) (metadata_mgr c) (map fst (blocks md)) False)
            (\<lambda>(bm, mm, evicted).
               Inr (SetDirty (c\<lparr>block_mgr := bm, metadata_mgr := mm\<rparr>) evicted)))"

definition Cache_StoreBlock ::
  "host \<Rightarrow> Cache \<Rightarrow> string \<Rightarrow> 64 word \<Rightarrow> byte list \<Rightarrow> error + Cache" where
  "Cache_StoreBlock h c file_path idx data =
     (let cks = Checksum h data;
          found = GetBlockId (metadata_mgr c) file_path idx
      in bnd (if found = INVALID_BLOCK_ID
              then (let (b, bm1) = AllocBlock (block_mgr c);
                        mm1 = RegisterBlock (metadata_mgr c) file_path idx b cks
                    in bnd (EvictLRUBlockIfNeeded MarkBlockAsFree bm1 mm1) (\<lambda>(bm2, mm2).
                       Inr (b, bm2, mm2)))
              else Inr (found, block_mgr c, metadata_mgr c))
           (\<lambda>(b, bm3, mm3).
         bnd (StoreBlock bm3 b data) (\<lambda>bm4.
         Inr (SetDirty (c\<lparr>block_mgr := bm4, metadata_mgr := UpdateLRUOrder mm3 b\<rparr>) True))))"

definition Cache_RetrieveBlock ::
  "host \<Rightarrow> Cache \<Rightarrow> string \<Rightarrow> 64 word \<Rightarrow> byte list \<Rightarrow> error + (bool \<times> byte list \<times> Cache)" where
  "Cache_RetrieveBlock h c file_path idx data =
     (let b = GetBlockId (metadata_mgr c) file_path idx
      in if b = INVALID_BLOCK_ID then Inr (False, data, c)
         else
           bnd (GetBlockInfo (metadata_mgr c) file_path b) (\<lambda>block_info.
             (let mm1 = UpdateLRUOrder (metadata_mgr c) b
              in bnd (RetrieveBlock (block_mgr c) b data) (\<lambda>data1.
                   if checksum block_info \<noteq> Checksum h data1
                   then bnd (MarkBlockAsFree (block_mgr c) b) (\<lambda>bm1.
                          Inr (False, data1,
                               SetDirty (c\<lparr>block_mgr := bm1,
                                           metadata_mgr := UnregisterBlock mm1 b\<rparr>) True))
                   else Inr (True, data1, SetDirty (c\<lparr>metadata_mgr := mm1\<rparr>) True)))))"

definition StoreFileSize :: "Cache \<Rightarrow> string \<Rightarrow> 64 word \<Rightarrow> Cache" where
  "StoreFileSize c file_path sz =
     SetDirty (c\<lparr>metadata_mgr := SetFileSize (metadata_mgr c) file_path sz\<rparr>) True"

definition StoreFileLastModified :: "Cache \<Rightarrow> string \<Rightarrow> 64 word \<Rightarrow> Cache" where
  "StoreFileLastModified c file_path ts =
     SetDirty (c\<lparr>metadata_mgr := SetFileLastModified (metadata_mgr c) file_path ts\<rparr>) True"

definition Cache_SetMaxCacheSize :: "Cache \<Rightarrow> 64 word \<Rightarrow> error + Cache" where
  "Cache_SetMaxCacheSize c new_max_cache_size_in_bytes =
     bnd (NumBlocksFromSize new_max_cache_size_in_bytes (block_size c))
       (\<lambda>max_cache_size_in_blocks.
     bnd (EvictLRUBlockIfNeeded MarkBlockAsFree (block_mgr c)
            (SetMaxCacheSize (metadata_mgr c) max_cache_size_in_blocks)) (\<lambda>(bm, mm).
     Inr (SetDirty (c\<lparr>block_mgr := bm, metadata_mgr := mm\<rparr>) True)))"

definition AddRef :: "Cache \<Rightarrow> Cache" where
  "AddRef c = c\<lparr>current_cache_users := current_cache_users c + 1\<rparr>"

definition RemoveRef :: "Cache \<Rightarrow> Cache" where
  "RemoveRef c = c\<lparr>current_cache_users := current_cache_users c - 1\<rparr>"

section \<open>Caching file handle: construction\<close>

text \<open>
  The constructor asks the underlying file system for the size and the modification time
  at most once each, and only when it needs them; either request may raise.  An exception
  closes the handle and is passed on.
\<close>

record underlying =
  GetFileSizeUnderlying :: "error + 64 word"
  GetFileLastModifiedUnderlying :: "error + 64 word"

definition source_changed :: "FileMetadata \<Rightarrow> underlying \<Rightarrow> error + bool" where
  "source_changed md u =
     bnd (GetFileLastModifiedUnderlying u) (\<lambda>underlying_last_modified.
       if last_modified md \<noteq> underlying_last_modified then Inr True
       else if underlying_last_modified = 0
       then bnd (GetFileSizeUnderlying u) (\<lambda>underlying_filesize.
              Inr (file_size md \<noteq> underlying_filesize \<or> underlying_filesize = 0))
       else Inr False)"

definition CacheFileHandle_new :: "Cache \<Rightarrow> string \<Rightarrow> bool \<Rightarrow> underlying \<Rightarrow> error + Cache" where
  "CacheFileHandle_new c0 file_path data_mutable u =
     (let c = AddRef c0
      in case RetrieveFileMetadata c file_path of
           None \<Rightarrow>
             bnd (GetFileSizeUnderlying u) (\<lambda>sz.
             bnd (GetFileLastModifiedUnderlying u) (\<lambda>ts.
             Inr (StoreFileLastModified (StoreFileSize c file_path sz) file_path ts)))
         | Some md \<Rightarrow>
             if data_mutable
             then bnd (source_changed md u) (\<lambda>evict_file_entry.
                    if evict_file_entry
                    then bnd (Cache_Evict c file_path) (\<lambda>c1.
                         bnd (GetFileLastModifiedUnderlying u) (\<lambda>ts.
                         bnd (GetFileSizeUnderlying u) (\<lambda>sz.
                         Inr (StoreFileSize (StoreFileLastModified c1 file_path ts) file_path sz))))
                    else Inr c)
             else Inr c)"

section \<open>The in-memory stream of the host\<close>

text \<open>
  The unit tests serialize into a \<open>MemoryStream\<close> of the host and read it back after
  \<open>Rewind\<close>.  As far as they use it, written bytes are appended and a read takes the next
  bytes; a read of more bytes than are left raises.  The stream being written is the bytes
  written so far, the stream being read is the bytes still ahead.
\<close>

definition ms_WriteData :: "byte list WriteStream" where
  "ms_WriteData s buf = Inr (s @ buf)"

definition ms_ReadData :: "byte list ReadStream" where
  "ms_ReadData s n = (if length s < n then Inl SerializationException else Inr (take n s, drop n s))"

section \<open>Reference runs\<close>

text \<open>
  A host for concrete runs: the checksum is the sum of the bytes, a legacy time is
  promoted by scaling seconds to microseconds, an uninitialised field holds zero.
\<close>

definition sum_host :: host where
  "sum_host =
     \<lparr>Checksum = (\<lambda>d. sum_list (map ucast d)),
      FromTimeT = (\<lambda>t. Inr (t * 1000000)),
      indeterminate = 0\<rparr>"

text \<open>A freshly constructed cache, opened on a backing file that does not exist yet.\<close>

definition open_cache :: "64 word \<Rightarrow> error + Cache" where
  "open_cache bsz = bnd (Cache_new [] bsz) (\<lambda>c. Cache_Open sum_host c ''cache.bin'')"

text \<open>A store of 24-byte blocks in which four blocks were allocated and all four freed.\<close>

definition four_free :: "error + BlockManager" where
  "four_free =
     bnd (BlockManager_new [] 24) (\<lambda>bm0.
     bnd (CreateNewDatabase 0 bm0 ''cache.bin'') (\<lambda>(_, _, bm1).
       (let (_, bm2) = AllocBlock bm1; (_, bm3) = AllocBlock bm2;
            (_, bm4) = AllocBlock bm3; (_, bm5) = AllocBlock bm4
        in bnd (MarkBlockAsFree bm5 0) (\<lambda>bm6.
           bnd (MarkBlockAsFree bm6 1) (\<lambda>bm7.
           bnd (MarkBlockAsFree bm7 2) (\<lambda>bm8.
           MarkBlockAsFree bm8 3))))))"


text \<open>An open cache of 16-byte blocks holding blocks 0 and 1 of one file.\<close>

definition two_blocks :: "error + Cache" where
  "two_blocks =
     bnd (open_cache 16) (\<lambda>c0.
     bnd (Cache_StoreBlock sum_host c0 ''f'' 0 (replicate 16 1)) (\<lambda>c1.
     Cache_StoreBlock sum_host c1 ''f'' 1 (replicate 16 1)))"

text \<open>
  The same cache after block 0 of a file was stored twice, first as sixteen bytes 1 and
  then as sixteen bytes 2.
\<close>

definition overwritten :: "error + Cache" where
  "overwritten =
     bnd (open_cache 16) (\<lambda>c0.
     bnd (Cache_StoreBlock sum_host c0 ''f'' 0 (replicate 16 1)) (\<lambda>c1.
     Cache_StoreBlock sum_host c1 ''f'' 0 (replicate 16 2)))"


text \<open>An underlying file of 100 bytes, last modified at time 5.\<close>

definition newer_source :: underlying where
  "newer_source = \<lparr>GetFileSizeUnderlying = Inr 100, GetFileLastModifiedUnderlying = Inr 5\<rparr>"

text \<open>The file metadata that the unit tests serialize.\<close>

definition sample_metadata :: FileMetadata where
  "sample_metadata =
     \<lparr>file_size = 123456789,
      blocks = [(1, \<lparr>block_index = 11, block_id = 1, checksum = 111111\<rparr>),
                (2, \<lparr>block_index = 22, block_id = 2, checksum = 333333\<rparr>),
                (3, \<lparr>block_index = 33, block_id = 3, checksum = 333333\<rparr>)],
      last_modified_deprecated = 1622547800,
      last_modified = 1622547800000123\<rparr>"

text \<open>
  A metadata manager that was told the size and time of a file and then registered and
  touched its blocks 0 and 1.
\<close>

definition sample_manager :: MetadataManager where
  "sample_manager =
     UpdateLRUOrder
       (RegisterBlock
          (UpdateLRUOrder
             (RegisterBlock
                (SetFileLastModified (SetFileSize MetadataManager_new ''f'' 100) ''f'' 5)
                ''f'' 0 0 16)
             0)
          ''f'' 1 1 16)
       1"

section \<open>Properties\<close>

text \<open>
  Every node of \<open>lru_list\<close> is the node that \<open>lru_map\<close> holds for its block id.
\<close>

definition lru_indexed :: "MetadataManager \<Rightarrow> bool" where
  "lru_indexed m = (\<forall>(node, b) \<in> set (lru_list m). map_of (lru_map m) b = Some node)"

text \<open>
  Every block of the entry of \<open>file_path\<close> is registered in the reverse mapping under that
  path.
\<close>

definition blocks_registered :: "MetadataManager \<Rightarrow> string \<Rightarrow> bool" where
  "blocks_registered m file_path =
     (case map_of (files_metadata m) file_path of
        None \<Rightarrow> True
      | Some fm \<Rightarrow>
          (\<forall>b \<in> fst ` set (blocks fm).
             case map_of (reverse_block_mapping m) b of
               None \<Rightarrow> False
             | Some key \<Rightarrow> fst key = file_path))"

text \<open>
  The freshness rule in the words of the design: the source changed when the modification
  times differ, or, the underlying time being the unknown sentinel, when the sizes differ
  or the underlying size is zero.
\<close>

definition changed :: "FileMetadata \<Rightarrow> 64 word \<Rightarrow> 64 word \<Rightarrow> bool" where
  "changed md underlying_last_modified underlying_filesize =
     (last_modified md \<noteq> underlying_last_modified
      \<or> (underlying_last_modified = epoch
          \<and> (file_size md \<noteq> underlying_filesize \<or> underlying_filesize = 0)))"


text \<open>
  The stream formats in the words of the design.  A \<open>FileMetadata\<close> stream is the size as
  \<open>u64\<close>, the number of blocks as \<open>u32\<close>, and for every block its index, id and checksum,
  64 bits each; version 2 appends the legacy \<open>time_t\<close>; version 3 appends after it the
  timestamp in microseconds.
\<close>

definition block_layout :: "FileMetadataBlockInfo \<Rightarrow> byte list" where
  "block_layout b = u64_bytes (block_index b) @ u64_bytes (block_id b) @ u64_bytes (checksum b)"

definition v1_layout :: "FileMetadata \<Rightarrow> byte list" where
  "v1_layout fm =
     u64_bytes (file_size fm) @ u32_bytes (word_of_nat (length (blocks fm)))
     @ concat (map (\<lambda>(_, b). block_layout b) (blocks fm))"

definition v2_layout :: "FileMetadata \<Rightarrow> byte list" where
  "v2_layout fm = v1_layout fm @ u64_bytes (last_modified_deprecated fm)"

definition v3_layout :: "FileMetadata \<Rightarrow> byte list" where
  "v3_layout fm = v2_layout fm @ u64_bytes (last_modified fm)"

text \<open>
  The \<open>blocks\<close> of a file are a map from block id to the information of that block: the keys
  are distinct, and every block is filed under its own id.
\<close>

definition keyed_by_id :: "(block_id_t \<times> FileMetadataBlockInfo) list \<Rightarrow> bool" where
  "keyed_by_id bl = (distinct (map fst bl) \<and> (\<forall>(k, b) \<in> set bl. block_id b = k))"

text \<open>
  The stream of the whole manager in the words of the design: the number of files as \<open>u64\<close>,
  for every file the length of its path as \<open>u32\<close>, the bytes of the path and the
  \<open>FileMetadata\<close> stream, then the length of the LRU list as \<open>u64\<close> and its block ids from
  the most recent to the least recent.
\<close>

definition file_layout :: "string \<times> FileMetadata \<Rightarrow> byte list" where
  "file_layout = (\<lambda>(file_path, fm).
     u32_bytes (word_of_nat (length file_path)) @ string_bytes file_path @ v3_layout fm)"

definition manager_layout :: "MetadataManager \<Rightarrow> byte list" where
  "manager_layout m =
     u64_bytes (word_of_nat (length (files_metadata m)))
     @ concat (map file_layout (files_metadata m))
     @ u64_bytes (word_of_nat (length (lru_list m)))
     @ concat (map (\<lambda>(_, b). u64_bytes b) (lru_list m))"

text \<open>
  What the format can hold of a file: the length of the path and the number of blocks fit
  their 32-bit counts, \<open>blocks\<close> is a map keyed by block id, and the promotion of a legacy
  time that is not zero, which every read at version 2 or 3 runs, does not raise.
\<close>

definition readable :: "(64 word \<Rightarrow> error + 64 word) \<Rightarrow> string \<times> FileMetadata \<Rightarrow> bool" where
  "readable from_time_t = (\<lambda>(file_path, fm).
     length file_path < 2 ^ 32 \<and> length (blocks fm) < 2 ^ 32 \<and> keyed_by_id (blocks fm)
     \<and> (last_modified_deprecated fm \<noteq> 0 \<longrightarrow>
          (case from_time_t (last_modified_deprecated fm) of Inl _ \<Rightarrow> False | Inr _ \<Rightarrow> True)))"

text \<open>
  \<open>registered m key b\<close>: the file of \<open>key\<close> has an entry, and in it block \<open>b\<close> with the index
  of \<open>key\<close>.
\<close>

definition registered :: "MetadataManager \<Rightarrow> BlockKey \<Rightarrow> block_id_t \<Rightarrow> bool" where
  "registered m key b =
     (case map_of (files_metadata m) (fst key) of
        None \<Rightarrow> False
      | Some fm \<Rightarrow>
          (case map_of (blocks fm) b of
             None \<Rightarrow> False
           | Some info \<Rightarrow> block_index info = snd key))"

text \<open>
  The state of a manager as its operations keep it: \<open>files_metadata\<close> is a map, every file
  fits the format, the two counts fit 64 bits, every block of every file is in both
  indexes under its path and index, and the indexes hold nothing else.
\<close>

definition well_formed :: "(64 word \<Rightarrow> error + 64 word) \<Rightarrow> MetadataManager \<Rightarrow> bool" where
  "well_formed from_time_t m =
     (distinct (map fst (files_metadata m))
      \<and> length (files_metadata m) < 2 ^ 64
      \<and> length (lru_list m) < 2 ^ 64
      \<and> (\<forall>f \<in> set (files_metadata m). readable from_time_t f)
      \<and> (\<forall>(p, fm) \<in> set (files_metadata m). \<forall>(b, info) \<in> set (blocks fm).
            map_of (block_mapping m) (p, block_index info) = Some b
            \<and> map_of (reverse_block_mapping m) b = Some (p, block_index info))
      \<and> (\<forall>(key, b) \<in> set (block_mapping m). registered m key b)
      \<and> (\<forall>(b, key) \<in> set (reverse_block_mapping m). registered m key b))"

section \<open>Basic facts\<close>

lemma bnd_Inr [simp]: "bnd (Inr x) f = f x"
  by (simp add: bnd_def)

lemma bnd_Inl [simp]: "bnd (Inl e) f = Inl e"
  by (simp add: bnd_def)

lemma bnd_eq_Inr_iff: "bnd m f = Inr y \<longleftrightarrow> (\<exists>x. m = Inr x \<and> f x = Inr y)"
  by (cases m) auto

lemma case_InrD:
  "(case x of Inl _ \<Rightarrow> False | Inr c \<Rightarrow> P c) \<Longrightarrow> \<exists>c. x = Inr c \<and> P c"
  by (cases x) auto

lemma case_SomeD:
  "(case x of None \<Rightarrow> False | Some c \<Rightarrow> P c) \<Longrightarrow> \<exists>c. x = Some c \<and> P c"
  by (cases x) auto

lemma set_insert_member: "b \<in> set (set_insert b xs)"
  by (induction xs) auto

lemma RetrieveBlock_valid:
  "RetrieveBlock bm b data = Inr d \<Longrightarrow> ValidateBlockId bm b = Inr ()"
  by (cases "ValidateBlockId bm b") (auto simp: RetrieveBlock_def)

lemma MarkBlockAsFree_valid:
  "ValidateBlockId bm b = Inr () \<Longrightarrow>
   MarkBlockAsFree bm b = Inr (bm\<lparr>free_list := set_insert b (free_list bm)\<rparr>)"
  by (simp add: MarkBlockAsFree_def)

lemma SetDirty_fields [simp]:
  "block_mgr (SetDirty c f) = block_mgr c"
  "metadata_mgr (SetDirty c f) = metadata_mgr c"
  "opened (SetDirty c f) = opened c"
  by (simp_all add: SetDirty_def)

lemma dirty_SetDirty_True: "dirty c \<noteq> - 1 \<Longrightarrow> IsDirty (SetDirty c True)"
  by (simp add: IsDirty_def SetDirty_def eq_neg_iff_add_eq_0)

lemma UpdateLRUOrder_other [simp]:
  "block_mapping (UpdateLRUOrder m b) = block_mapping m"
  "reverse_block_mapping (UpdateLRUOrder m b) = reverse_block_mapping m"
  "files_metadata (UpdateLRUOrder m b) = files_metadata m"
  by (simp_all add: UpdateLRUOrder_def Let_def)

lemma UpdateLRUOrder_indexed:
  "lru_indexed m \<Longrightarrow> lru_indexed (UpdateLRUOrder m b)"
  by (auto simp: UpdateLRUOrder_def Let_def lru_indexed_def update_conv' split: option.splits)

lemma UnregisterBlock_reverse:
  "map_of (reverse_block_mapping (UnregisterBlock m b)) b = None"
  by (auto simp: UnregisterBlock_def Let_def delete_conv' split: option.splits)

lemma UnregisterBlock_mapping:
  "map_of (reverse_block_mapping m) b = Some key \<Longrightarrow>
   map_of (block_mapping (UnregisterBlock m b)) key = None"
  by (auto simp: UnregisterBlock_def Let_def delete_conv' split: option.splits)

lemma UnregisterBlock_blocks:
  "map_of (reverse_block_mapping m) b = Some (p, i) \<Longrightarrow>
   map_of (files_metadata (UnregisterBlock m b)) p = Some fm \<Longrightarrow>
   map_of (blocks fm) b = None"
  by (auto simp: UnregisterBlock_def Let_def delete_conv' update_conv'
      split: option.splits if_splits)

lemma UnregisterBlock_lru_map:
  "map_of (lru_map (UnregisterBlock m b)) b = None"
  by (auto simp: UnregisterBlock_def Let_def delete_conv' split: option.splits)

lemma UnregisterBlock_lru_list:
  "lru_indexed m \<Longrightarrow> b \<notin> snd ` set (lru_list (UnregisterBlock m b))"
  by (fastforce simp: UnregisterBlock_def Let_def lru_indexed_def split: option.splits)

section \<open>The LRU bound\<close>

text \<open>
  C1.  The claim: after every coordinator operation the number of entries of \<open>lru_map\<close> is
  at most \<open>max_cache_size\<close>, also after \<open>store_block\<close> of an unknown \<open>(path, index)\<close>.

  \<open>StoreBlock\<close> runs the eviction loop after registering the new block and before
  \<open>UpdateLRUOrder\<close> puts it into the LRU structures, so the loop never counts the block
  being stored.  With a capacity of one block (16 bytes at a block size of 16), storing
  blocks 0 and 1 of a file leaves two entries in \<open>lru_map\<close>.
\<close>

theorem C1_store_block_exceeds_capacity:
  "map_sum id (\<lambda>c. (max_cache_size (metadata_mgr c), length (lru_map (metadata_mgr c))))
     (bnd (open_cache 16) (\<lambda>c0.
      bnd (Cache_SetMaxCacheSize c0 16) (\<lambda>c1.
      bnd (Cache_StoreBlock sum_host c1 ''f'' 0 (replicate 16 1)) (\<lambda>c2.
      Cache_StoreBlock sum_host c2 ''f'' 1 (replicate 16 1)))))
   = Inr (1, 2)"
  by code_simp

section \<open>The checksum recorded by \<open>StoreBlock\<close>\<close>

text \<open>
  C2.  The claim: after \<open>store_block(path, index, data)\<close> returns, the \<open>BlockInfo\<close> of
  \<open>(path, index)\<close> holds the checksum of \<open>data\<close>, also when an existing block is
  overwritten.

  \<open>StoreBlock\<close> computes the checksum first but hands it to \<open>RegisterBlock\<close> only in the
  branch that allocates a new block.  Storing sixteen bytes 1 and then sixteen bytes 2 under
  the same key leaves the checksum 16 of the first data recorded; the checksum of the
  bytes now in the block is 32.
\<close>

theorem C2_overwrite_keeps_old_checksum:
  "map_sum id
     (\<lambda>c. (map_sum id checksum (GetBlockInfo (metadata_mgr c) ''f'' 0),
           Checksum sum_host (replicate 16 2)))
     (bnd (open_cache 16) (\<lambda>c0.
      bnd (Cache_StoreBlock sum_host c0 ''f'' 0 (replicate 16 1)) (\<lambda>c1.
      Cache_StoreBlock sum_host c1 ''f'' 0 (replicate 16 2))))
   = Inr (Inr 16, 32)"
  by code_simp

section \<open>Corruption found by \<open>RetrieveBlock\<close>\<close>

lemma retrieve_block_mismatch:
  assumes registered: "GetBlockId (metadata_mgr c) file_path idx = b" "b \<noteq> INVALID_BLOCK_ID"
    and inverse: "map_of (reverse_block_mapping (metadata_mgr c)) b = Some (file_path, idx)"
    and info: "GetBlockInfo (metadata_mgr c) file_path b = Inr block_info"
    and read: "RetrieveBlock (block_mgr c) b data = Inr data1"
    and mismatch: "checksum block_info \<noteq> Checksum h data1"
    and lru: "lru_indexed (metadata_mgr c)"
    and counter: "dirty c \<noteq> - 1"
  shows "\<exists>c'. Cache_RetrieveBlock h c file_path idx data = Inr (False, data1, c')
           \<and> b \<in> set (free_list (block_mgr c'))
           \<and> map_of (block_mapping (metadata_mgr c')) (file_path, idx) = None
           \<and> map_of (reverse_block_mapping (metadata_mgr c')) b = None
           \<and> (\<forall>fm. map_of (files_metadata (metadata_mgr c')) file_path = Some fm
                  \<longrightarrow> map_of (blocks fm) b = None)
           \<and> map_of (lru_map (metadata_mgr c')) b = None
           \<and> b \<notin> snd ` set (lru_list (metadata_mgr c'))
           \<and> IsDirty c'"
proof -
  let ?mm1 = "UpdateLRUOrder (metadata_mgr c) b"
  let ?bm1 = "(block_mgr c)\<lparr>free_list := set_insert b (free_list (block_mgr c))\<rparr>"
  let ?c' = "SetDirty (c\<lparr>block_mgr := ?bm1, metadata_mgr := UnregisterBlock ?mm1 b\<rparr>) True"
  have free: "MarkBlockAsFree (block_mgr c) b = Inr ?bm1"
    using RetrieveBlock_valid [OF read] by (rule MarkBlockAsFree_valid)
  have run: "Cache_RetrieveBlock h c file_path idx data = Inr (False, data1, ?c')"
    using registered info read mismatch free by (simp add: Cache_RetrieveBlock_def Let_def)
  have inv1: "map_of (reverse_block_mapping ?mm1) b = Some (file_path, idx)"
    using inverse by simp
  have "b \<in> set (free_list (block_mgr ?c'))"
    by (simp add: set_insert_member)
  moreover have "map_of (block_mapping (metadata_mgr ?c')) (file_path, idx) = None"
    using UnregisterBlock_mapping [OF inv1] by simp
  moreover have "map_of (reverse_block_mapping (metadata_mgr ?c')) b = None"
    by (simp add: UnregisterBlock_reverse)
  moreover have "\<forall>fm. map_of (files_metadata (metadata_mgr ?c')) file_path = Some fm
                  \<longrightarrow> map_of (blocks fm) b = None"
    using UnregisterBlock_blocks [OF inv1] by simp
  moreover have "map_of (lru_map (metadata_mgr ?c')) b = None"
    by (simp add: UnregisterBlock_lru_map)
  moreover have "b \<notin> snd ` set (lru_list (metadata_mgr ?c'))"
    using UnregisterBlock_lru_list [OF UpdateLRUOrder_indexed [OF lru]] by simp
  moreover have "IsDirty ?c'"
    using counter by (intro dirty_SetDirty_True) simp
  ultimately show ?thesis using run by blast
qed

text \<open>
  C3.  If \<open>retrieve_block(path, index)\<close> finds a registered block whose recorded checksum
  differs from the checksum of the bytes read, it returns false, the block id is in the
  free set of the store afterwards, the block is gone from \<open>block_mapping\<close>,
  \<open>reverse_mapping\<close>, the blocks of the file and both LRU structures, and the dirty flag is
  set.  If \<open>(path, index)\<close> has no registered block it returns false and changes nothing.

  "Registered" is read with the invariant of the indexes: the reverse mapping sends the id
  back to \<open>(path, index)\<close>, and every LRU node is the one \<open>lru_map\<close> holds.  The dirty flag
  is a 64-bit counter that is incremented; it is taken not to stand at its last value.
\<close>

theorem C3_retrieve_block_mismatch_and_miss:
  assumes lru: "lru_indexed (metadata_mgr c)"
    and counter: "dirty c \<noteq> - 1"
  shows "(GetBlockId (metadata_mgr c) file_path idx = b \<and> b \<noteq> INVALID_BLOCK_ID
          \<and> map_of (reverse_block_mapping (metadata_mgr c)) b = Some (file_path, idx)
          \<and> GetBlockInfo (metadata_mgr c) file_path b = Inr block_info
          \<and> RetrieveBlock (block_mgr c) b data = Inr data1
          \<and> checksum block_info \<noteq> Checksum h data1
          \<longrightarrow> (\<exists>c'. Cache_RetrieveBlock h c file_path idx data = Inr (False, data1, c')
                 \<and> b \<in> set (free_list (block_mgr c'))
                 \<and> map_of (block_mapping (metadata_mgr c')) (file_path, idx) = None
                 \<and> map_of (reverse_block_mapping (metadata_mgr c')) b = None
                 \<and> (\<forall>fm. map_of (files_metadata (metadata_mgr c')) file_path = Some fm
                        \<longrightarrow> map_of (blocks fm) b = None)
                 \<and> map_of (lru_map (metadata_mgr c')) b = None
                 \<and> b \<notin> snd ` set (lru_list (metadata_mgr c'))
                 \<and> IsDirty c'))
       \<and> (GetBlockId (metadata_mgr c) file_path idx = INVALID_BLOCK_ID
          \<longrightarrow> Cache_RetrieveBlock h c file_path idx data = Inr (False, data, c))"
proof (intro conjI impI)
  assume "GetBlockId (metadata_mgr c) file_path idx = INVALID_BLOCK_ID"
  then show "Cache_RetrieveBlock h c file_path idx data = Inr (False, data, c)"
    by (simp add: Cache_RetrieveBlock_def)
next
  assume "GetBlockId (metadata_mgr c) file_path idx = b \<and> b \<noteq> INVALID_BLOCK_ID
          \<and> map_of (reverse_block_mapping (metadata_mgr c)) b = Some (file_path, idx)
          \<and> GetBlockInfo (metadata_mgr c) file_path b = Inr block_info
          \<and> RetrieveBlock (block_mgr c) b data = Inr data1
          \<and> checksum block_info \<noteq> Checksum h data1"
  then show "\<exists>c'. Cache_RetrieveBlock h c file_path idx data = Inr (False, data1, c')
                 \<and> b \<in> set (free_list (block_mgr c'))
                 \<and> map_of (block_mapping (metadata_mgr c')) (file_path, idx) = None
                 \<and> map_of (reverse_block_mapping (metadata_mgr c')) b = None
                 \<and> (\<forall>fm. map_of (files_metadata (metadata_mgr c')) file_path = Some fm
                        \<longrightarrow> map_of (blocks fm) b = None)
                 \<and> map_of (lru_map (metadata_mgr c')) b = None
                 \<and> b \<notin> snd ` set (lru_list (metadata_mgr c'))
                 \<and> IsDirty c'"
    using retrieve_block_mismatch [OF _ _ _ _ _ _ lru counter] by blast
qed

text \<open>
  The theorem at work: after block 0 of \<open>f\<close> was overwritten the recorded checksum is
  stale, so reading it back is a miss that frees block 0 and drops its metadata; asking
  for block 5, which was never stored, is a miss that leaves the cache as it was.
\<close>

theorem C3_retrieve_block_witness:
  "\<exists>c c'. overwritten = Inr c
     \<and> Cache_RetrieveBlock sum_host c ''f'' 0 (replicate 16 0) = Inr (False, replicate 16 2, c')
     \<and> 0 \<in> set (free_list (block_mgr c'))
     \<and> map_of (block_mapping (metadata_mgr c')) (''f'', 0) = None
     \<and> map_of (reverse_block_mapping (metadata_mgr c')) 0 = None
     \<and> map_of (lru_map (metadata_mgr c')) 0 = None
     \<and> IsDirty c'
     \<and> Cache_RetrieveBlock sum_host c ''f'' 5 (replicate 16 0) = Inr (False, replicate 16 0, c)"
proof -
  have "case overwritten of
          Inl _ \<Rightarrow> False
        | Inr c \<Rightarrow>
            (GetBlockId (metadata_mgr c) ''f'' 0 = 0 \<and> (0 :: block_id_t) \<noteq> INVALID_BLOCK_ID
             \<and> map_of (reverse_block_mapping (metadata_mgr c)) 0 = Some (''f'', 0)
             \<and> GetBlockInfo (metadata_mgr c) ''f'' 0
                 = Inr \<lparr>block_index = 0, block_id = 0, checksum = 16\<rparr>
             \<and> RetrieveBlock (block_mgr c) 0 (replicate 16 0) = Inr (replicate 16 2)
             \<and> checksum \<lparr>block_index = 0, block_id = 0, checksum = 16\<rparr>
                 \<noteq> Checksum sum_host (replicate 16 2))
            \<and> GetBlockId (metadata_mgr c) ''f'' 5 = INVALID_BLOCK_ID
            \<and> lru_indexed (metadata_mgr c)
            \<and> dirty c \<noteq> - 1"
    by code_simp
  from case_InrD [OF this] obtain c where run: "overwritten = Inr c"
    and h1: "GetBlockId (metadata_mgr c) ''f'' 0 = 0 \<and> (0 :: block_id_t) \<noteq> INVALID_BLOCK_ID
             \<and> map_of (reverse_block_mapping (metadata_mgr c)) 0 = Some (''f'', 0)
             \<and> GetBlockInfo (metadata_mgr c) ''f'' 0
                 = Inr \<lparr>block_index = 0, block_id = 0, checksum = 16\<rparr>
             \<and> RetrieveBlock (block_mgr c) 0 (replicate 16 0) = Inr (replicate 16 2)
             \<and> checksum \<lparr>block_index = 0, block_id = 0, checksum = 16\<rparr>
                 \<noteq> Checksum sum_host (replicate 16 2)"
    and h2: "GetBlockId (metadata_mgr c) ''f'' 5 = INVALID_BLOCK_ID"
    and lru: "lru_indexed (metadata_mgr c)"
    and counter: "dirty c \<noteq> - 1"
    by blast
  from C3_retrieve_block_mismatch_and_miss [OF lru counter, of "''f''" 0 0 _ "replicate 16 0"
      "replicate 16 2" sum_host] h1
  obtain c' where
    "Cache_RetrieveBlock sum_host c ''f'' 0 (replicate 16 0) = Inr (False, replicate 16 2, c')"
    "0 \<in> set (free_list (block_mgr c'))"
    "map_of (block_mapping (metadata_mgr c')) (''f'', 0) = None"
    "map_of (reverse_block_mapping (metadata_mgr c')) 0 = None"
    "map_of (lru_map (metadata_mgr c')) 0 = None"
    "IsDirty c'"
    by blast
  moreover from C3_retrieve_block_mismatch_and_miss [OF lru counter, of "''f''" 5 _ _
      "replicate 16 0" _ sum_host] h2
  have "Cache_RetrieveBlock sum_host c ''f'' 5 (replicate 16 0) = Inr (False, replicate 16 0, c)"
    by blast
  ultimately show ?thesis using run by blast
qed

section \<open>The persisted free list\<close>

text \<open>
  C4.  The claim: \<open>save_free_list\<close> first frees the old chain, and the list it persists is
  the free set as it stands after every block of the new chain was allocated: no block of
  the new chain is in the persisted list, and \<open>load_existing\<close> restores exactly that set.

  \<open>SaveFreeList\<close> does free the old chain first.  It then allocates the first block of
  the new chain, and writes the count and every id of the set as it stands at that moment;
  the blocks the writer allocates later are taken from the same set after their ids went
  into the stream.  With 24-byte blocks and the free set \<open>{0, 1, 2, 3}\<close>, the chain is block 0
  followed by block 1 and the set left in memory is \<open>{2, 3}\<close>, but the list on disk is
  \<open>{1, 2, 3}\<close>: it names block 1 of the chain, and loading restores it.
\<close>

theorem C4_persisted_free_list_names_chain_block:
  "map_sum id
     (\<lambda>bm. (free_list bm, free_list_id bm,
            map_sum id GetNextBlockId (MetadataReader_at bm (free_list_id bm)),
            map_sum id (\<lambda>(_, _, bm'). free_list bm') (LoadExistingDatabase bm ''cache.bin'')))
     (bnd four_free BlockManager_Flush)
   = Inr ([2, 3], 0, Inr 1, Inr [1, 2, 3])"
  by code_simp

section \<open>Reading serialized metadata\<close>

lemma length_le_bytes [simp]: "length (le_bytes n w) = n"
  by (induction n arbitrary: w) auto

lemma le_word_le_bytes: "(le_word (le_bytes n w) :: 'a::len word) = take_bit (8 * n) w"
proof (induction n arbitrary: w)
  case 0
  then show ?case by simp
next
  case (Suc n)
  show ?case
    apply (simp add: Suc)
    apply (rule bit_word_eqI)
    apply (auto simp: bit_simps)
    done
qed

lemma le_word_u64 [simp]: "le_word (u64_bytes w) = w"
  by (simp add: u64_bytes_def le_word_le_bytes take_bit_word_eq_self)

lemma le_word_u32 [simp]: "le_word (u32_bytes w) = w"
  by (simp add: u32_bytes_def le_word_le_bytes take_bit_word_eq_self)

lemma length_u64 [simp]: "length (u64_bytes w) = 8"
  by (simp add: u64_bytes_def)

lemma length_u32 [simp]: "length (u32_bytes w) = 4"
  by (simp add: u32_bytes_def)

lemma Read_u64_ms [simp]: "Read_u64 ms_ReadData (u64_bytes w @ rest) = Inr (w, rest)"
  by (simp add: Read_u64_def ms_ReadData_def)

lemma Read_u32_ms [simp]: "Read_u32 ms_ReadData (u32_bytes w @ rest) = Inr (w, rest)"
  by (simp add: Read_u32_def ms_ReadData_def)

lemma bytes_string_string_bytes [simp]: "bytes_string (string_bytes p) = p"
  by (induction p) (simp_all add: bytes_string_def string_bytes_def unat_of_nat take_bit_eq_mod)

lemma Write_blocks_ms:
  "Write_blocks ms_WriteData s bl = Inr (s @ concat (map (\<lambda>(_, b). block_layout b) bl))"
  by (induction bl arbitrary: s) (auto simp: ms_WriteData_def block_layout_def)

lemma FileMetadata_Write_ms:
  "FileMetadata_Write ms_WriteData s fm = Inr (s @ v3_layout fm)"
  by (simp add: FileMetadata_Write_def Write_blocks_ms v3_layout_def v2_layout_def v1_layout_def
      ms_WriteData_def)

lemma update_fresh: "k \<notin> fst ` set al \<Longrightarrow> AList.update k v al = al @ [(k, v)]"
  by (induction al) auto

lemma block_info_eta [simp]:
  "\<lparr>block_index = block_index b, block_id = block_id b, checksum = checksum b\<rparr> = b"
  by (cases b) simp

lemma ReadV1_blocks_ms:
  "ReadV1_blocks ms_ReadData (concat (map (\<lambda>(_, b). block_layout b) bl) @ rest) (length bl) out
   = Inr (out\<lparr>blocks := fold (\<lambda>(_, b). AList.update (block_id b) b) bl (blocks out)\<rparr>, rest)"
proof (induction bl arbitrary: out)
  case Nil
  then show ?case by (simp add: ReadV1_blocks.simps)
next
  case (Cons a bl)
  obtain k b where a: "a = (k, b)" by (cases a)
  show ?case
    by (subst ReadV1_blocks.simps) (simp add: a block_layout_def Cons)
qed

lemma fold_update_keyed:
  assumes "keyed_by_id bl" "fst ` set acc \<inter> fst ` set bl = {}"
  shows "fold (\<lambda>(_, b). AList.update (block_id b) b) bl acc = acc @ bl"
  using assms
proof (induction bl arbitrary: acc)
  case Nil
  then show ?case by simp
next
  case (Cons a bl)
  obtain k b where a: "a = (k, b)" by (cases a)
  from Cons.prems have kb: "block_id b = k" and fresh: "k \<notin> fst ` set acc"
    and rest: "keyed_by_id bl" and k: "k \<notin> fst ` set bl"
    and disj: "fst ` set acc \<inter> fst ` set bl = {}"
    by (auto simp: keyed_by_id_def a)
  have "fst ` set (acc @ [(k, b)]) \<inter> fst ` set bl = {}"
    using disj k by auto
  from Cons.IH [OF rest this] show ?case
    by (simp add: a kb update_fresh [OF fresh])
qed

lemma ReadV1_ms:
  assumes "length (blocks fm) < 2 ^ 32"
  shows "ReadV1 ms_ReadData (v1_layout fm @ rest) out
         = Inr (out\<lparr>file_size := file_size fm,
                     blocks := fold (\<lambda>(_, b). AList.update (block_id b) b) (blocks fm) (blocks out)\<rparr>,
                rest)"
proof -
  have "unat (word_of_nat (length (blocks fm)) :: 32 word) = length (blocks fm)"
    using assms by (simp add: unat_of_nat take_bit_nat_eq_self)
  then show ?thesis
    by (simp add: ReadV1_def v1_layout_def ReadV1_blocks_ms)
qed

lemma ReadV2_ms:
  assumes "length (blocks fm) < 2 ^ 32"
  shows "ReadV2 from_time_t ms_ReadData (v2_layout fm @ rest) out
         = (let out1 = out\<lparr>file_size := file_size fm,
                  blocks := fold (\<lambda>(_, b). AList.update (block_id b) b) (blocks fm) (blocks out)\<rparr>
            in if last_modified_deprecated fm \<noteq> 0
               then bnd (from_time_t (last_modified_deprecated fm)) (\<lambda>ts.
                      Inr (out1\<lparr>last_modified_deprecated := last_modified_deprecated fm,
                                 last_modified := ts\<rparr>, rest))
               else Inr (out1\<lparr>last_modified_deprecated := last_modified_deprecated fm\<rparr>, rest))"
  by (simp add: ReadV2_def v2_layout_def ReadV1_ms [OF assms] Let_def)

lemma ReadV3_ms:
  assumes "length (blocks fm) < 2 ^ 32"
    and "last_modified_deprecated fm \<noteq> 0 \<longrightarrow> (\<exists>ts. from_time_t (last_modified_deprecated fm) = Inr ts)"
  shows "ReadV3 from_time_t ms_ReadData (v3_layout fm @ rest) out
         = Inr (out\<lparr>file_size := file_size fm,
                  blocks := fold (\<lambda>(_, b). AList.update (block_id b) b) (blocks fm) (blocks out),
                  last_modified_deprecated := last_modified_deprecated fm,
                  last_modified := last_modified fm\<rparr>, rest)"
  using assms(2)
  by (auto simp add: ReadV3_def v3_layout_def ReadV2_ms [OF assms(1)] Let_def)

lemma FileMetadata_Read_v3_ms:
  assumes "length (blocks fm) < 2 ^ 32" "keyed_by_id (blocks fm)"
    and "last_modified_deprecated fm \<noteq> 0 \<longrightarrow> (\<exists>ts. from_time_t (last_modified_deprecated fm) = Inr ts)"
  shows "FileMetadata_Read from_time_t ms_ReadData (v3_layout fm @ rest) 3 = Inr (fm, rest)"
  using fold_update_keyed [OF assms(2), of "[]"]
  by (simp add: FileMetadata_Read_def ReadV3_ms [where from_time_t = from_time_t, OF assms(1,3)] FileMetadata_default_def)

text \<open>
  C6.  A \<open>FileMetadata\<close> stream of version 1 read at version 1 gives \<open>last_modified\<close> the
  epoch, the value that stands for "unknown".  A stream of version 2 read at version 2 gives
  the time that \<open>FromTimeT\<close> makes of the legacy field; the source does not call it for a
  legacy field of zero, and then the time stays the epoch.  A stream of version 3 read at
  version 3 gives the timestamp stored last in the stream, provided the promotion of its
  legacy field, which runs first, does not raise.  A version above 3 is rejected with an
  \<open>IOException\<close>, whatever the stream.

  The streams are in-memory streams holding the layout followed by any further bytes; the
  number of blocks fits the 32-bit count of the format.
\<close>

theorem C6_versioned_read:
  assumes "length (blocks fm) < 2 ^ 32"
  shows
    "(\<exists>fm'. FileMetadata_Read from_time_t ms_ReadData (v1_layout fm @ rest) 1 = Inr (fm', rest)
           \<and> file_size fm' = file_size fm \<and> last_modified fm' = epoch)
     \<and> (last_modified_deprecated fm \<noteq> 0 \<longrightarrow>
          from_time_t (last_modified_deprecated fm) = Inr ts \<longrightarrow>
          (\<exists>fm'. FileMetadata_Read from_time_t ms_ReadData (v2_layout fm @ rest) 2 = Inr (fm', rest)
                \<and> file_size fm' = file_size fm \<and> last_modified fm' = ts))
     \<and> (last_modified_deprecated fm = 0 \<longrightarrow>
          (\<exists>fm'. FileMetadata_Read from_time_t ms_ReadData (v2_layout fm @ rest) 2 = Inr (fm', rest)
                \<and> file_size fm' = file_size fm \<and> last_modified fm' = epoch))
     \<and> ((last_modified_deprecated fm \<noteq> 0 \<longrightarrow>
            (\<exists>ts'. from_time_t (last_modified_deprecated fm) = Inr ts')) \<longrightarrow>
          (\<exists>fm'. FileMetadata_Read from_time_t ms_ReadData (v3_layout fm @ rest) 3 = Inr (fm', rest)
                \<and> file_size fm' = file_size fm \<and> last_modified fm' = last_modified fm))
     \<and> (3 < ver \<longrightarrow> FileMetadata_Read from_time_t rd src ver = Inl IOException)"
proof (intro conjI impI)
  show "\<exists>fm'. FileMetadata_Read from_time_t ms_ReadData (v1_layout fm @ rest) 1 = Inr (fm', rest)
           \<and> file_size fm' = file_size fm \<and> last_modified fm' = epoch"
    by (simp add: FileMetadata_Read_def ReadV1_ms [OF assms] FileMetadata_default_def)
next
  assume "last_modified_deprecated fm \<noteq> 0" "from_time_t (last_modified_deprecated fm) = Inr ts"
  then show "\<exists>fm'. FileMetadata_Read from_time_t ms_ReadData (v2_layout fm @ rest) 2 = Inr (fm', rest)
                \<and> file_size fm' = file_size fm \<and> last_modified fm' = ts"
    by (simp add: FileMetadata_Read_def ReadV2_ms [OF assms] FileMetadata_default_def Let_def)
next
  assume "last_modified_deprecated fm = 0"
  then show "\<exists>fm'. FileMetadata_Read from_time_t ms_ReadData (v2_layout fm @ rest) 2 = Inr (fm', rest)
                \<and> file_size fm' = file_size fm \<and> last_modified fm' = epoch"
    by (simp add: FileMetadata_Read_def ReadV2_ms [OF assms] FileMetadata_default_def Let_def)
next
  assume "last_modified_deprecated fm \<noteq> 0 \<longrightarrow>
            (\<exists>ts'. from_time_t (last_modified_deprecated fm) = Inr ts')"
  then show "\<exists>fm'. FileMetadata_Read from_time_t ms_ReadData (v3_layout fm @ rest) 3 = Inr (fm', rest)
                \<and> file_size fm' = file_size fm \<and> last_modified fm' = last_modified fm"
    by (simp add: FileMetadata_Read_def ReadV3_ms [OF assms] FileMetadata_default_def)
next
  assume "3 < ver"
  then show "FileMetadata_Read from_time_t rd src ver = Inl IOException"
    by (auto simp: FileMetadata_Read_def)
qed

text \<open>
  The theorem at work on the metadata of the unit tests, and on the same metadata with a
  legacy field of zero.
\<close>

theorem C6_versioned_read_witness:
  "(\<exists>fm'. FileMetadata_Read (FromTimeT sum_host) ms_ReadData (v1_layout sample_metadata) 1
            = Inr (fm', [])
         \<and> file_size fm' = 123456789 \<and> last_modified fm' = epoch)
   \<and> (\<exists>fm'. FileMetadata_Read (FromTimeT sum_host) ms_ReadData (v2_layout sample_metadata) 2
            = Inr (fm', [])
         \<and> file_size fm' = 123456789 \<and> last_modified fm' = 1622547800000000)
   \<and> (\<exists>fm'. FileMetadata_Read (FromTimeT sum_host) ms_ReadData
              (v2_layout (sample_metadata\<lparr>last_modified_deprecated := 0\<rparr>)) 2
            = Inr (fm', [])
         \<and> file_size fm' = 123456789 \<and> last_modified fm' = epoch)
   \<and> (\<exists>fm'. FileMetadata_Read (FromTimeT sum_host) ms_ReadData (v3_layout sample_metadata) 3
            = Inr (fm', [])
         \<and> file_size fm' = 123456789 \<and> last_modified fm' = 1622547800000123)
   \<and> FileMetadata_Read (FromTimeT sum_host) ms_ReadData [] 4 = Inl IOException"
proof -
  have len: "length (blocks sample_metadata) < 2 ^ 32"
    and len0: "length (blocks (sample_metadata\<lparr>last_modified_deprecated := 0\<rparr>)) < 2 ^ 32"
    by (simp_all add: sample_metadata_def)
  have legacy: "last_modified_deprecated sample_metadata \<noteq> 0"
    and promoted: "FromTimeT sum_host (last_modified_deprecated sample_metadata)
                   = Inr 1622547800000000"
    and fields: "file_size sample_metadata = 123456789"
      "last_modified sample_metadata = 1622547800000123"
    by (simp_all add: sample_metadata_def sum_host_def)
  from C6_versioned_read [OF len, of "FromTimeT sum_host" "[]" 1622547800000000 4 ms_ReadData "[]"]
    C6_versioned_read [OF len0, of "FromTimeT sum_host" "[]" 0 4 ms_ReadData "[]"]
    legacy promoted fields
  show ?thesis
    by simp
qed

section \<open>The round trip of the metadata\<close>

lemma length_string_bytes [simp]: "length (string_bytes p) = length p"
  by (simp add: string_bytes_def)

lemma unat_u32_length: "n < 2 ^ 32 \<Longrightarrow> unat (word_of_nat n :: 32 word) = n"
  by (simp add: unat_of_nat take_bit_nat_eq_self)

lemma unat_u64_length: "n < 2 ^ 64 \<Longrightarrow> unat (word_of_nat n :: 64 word) = n"
  by (simp add: unat_of_nat take_bit_nat_eq_self)

lemma ms_WriteData_append: "ms_WriteData s buf = Inr (s @ buf)"
  by (simp add: ms_WriteData_def)

lemma Write_files_ms:
  assumes "\<forall>(p, fm) \<in> set files. length p < 2 ^ 32"
  shows "Write_files ms_WriteData s files = Inr (s @ concat (map file_layout files))"
  using assms
proof (induction files arbitrary: s)
  case Nil
  then show ?case by simp
next
  case (Cons a files)
  obtain p fm where a: "a = (p, fm)" by (cases a)
  from Cons.prems have p: "length p < 2 ^ 32" and rest: "\<forall>(p, fm) \<in> set files. length p < 2 ^ 32"
    by (auto simp: a)
  show ?case
    unfolding a
    apply (simp only: Write_files.simps)
    apply (simp only: Let_def)
    apply (simp only: ms_WriteData_append bnd_Inr)
    apply (simp only: unat_u32_length [OF p] FileMetadata_Write_ms bnd_Inr)
    apply (simp only: Cons.IH [OF rest])
    apply (simp add: file_layout_def)
    done
qed

lemma Write_lru_ms:
  "Write_lru ms_WriteData s l = Inr (s @ concat (map (\<lambda>(_, b). u64_bytes b) l))"
  by (induction l arbitrary: s) (auto simp: ms_WriteData_def)

lemma WriteMetadata_ms:
  assumes "\<forall>(p, fm) \<in> set (files_metadata m). length p < 2 ^ 32"
  shows "WriteMetadata ms_WriteData s m = Inr (s @ manager_layout m)"
  by (simp add: WriteMetadata_def Write_files_ms [OF assms] Write_lru_ms manager_layout_def
      ms_WriteData_append)

lemma fold_update_distinct:
  assumes "distinct (map fst xs)" "fst ` set acc \<inter> fst ` set xs = {}"
  shows "fold (\<lambda>(k, v). AList.update k v) xs acc = acc @ xs"
  using assms
proof (induction xs arbitrary: acc)
  case Nil
  then show ?case by simp
next
  case (Cons a xs)
  obtain k v where a: "a = (k, v)" by (cases a)
  from Cons.prems have fresh: "k \<notin> fst ` set acc" and rest: "distinct (map fst xs)"
    and k: "k \<notin> fst ` set xs" and disj: "fst ` set acc \<inter> fst ` set xs = {}"
    by (auto simp: a)
  have "fst ` set (acc @ [(k, v)]) \<inter> fst ` set xs = {}"
    using disj k by auto
  from Cons.IH [OF rest this] show ?case
    by (simp add: a update_fresh [OF fresh])
qed

lemma Read_lru_ms:
  "Read_lru ms_ReadData (concat (map (\<lambda>(_, b). u64_bytes b) l) @ rest) (length l) m
   = Inr (fold (\<lambda>(_, b) m. m\<lparr>lru_list := lru_list m @ [(lru_next_node m, b)],
                               lru_map := AList.update b (lru_next_node m) (lru_map m),
                               lru_next_node := lru_next_node m + 1\<rparr>) l m, rest)"
proof (induction l arbitrary: m)
  case Nil
  then show ?case by (simp add: Read_lru.simps)
next
  case (Cons a l)
  obtain h b where a: "a = (h, b)" by (cases a)
  show ?case
    by (subst Read_lru.simps) (simp add: a Cons)
qed

lemma fold_lru_other:
  fixes l :: "(nat \<times> block_id_t) list"
  defines "step \<equiv> (\<lambda>(_, b) m. m\<lparr>lru_list := lru_list m @ [(lru_next_node m, b)],
                               lru_map := AList.update b (lru_next_node m) (lru_map m),
                               lru_next_node := lru_next_node m + 1\<rparr>)"
  shows "files_metadata (fold step l m) = files_metadata m
       \<and> block_mapping (fold step l m) = block_mapping m
       \<and> reverse_block_mapping (fold step l m) = reverse_block_mapping m
       \<and> max_cache_size (fold step l m) = max_cache_size m
       \<and> map snd (lru_list (fold step l m)) = map snd (lru_list m) @ map snd l
       \<and> fst ` set (lru_map (fold step l m)) = fst ` set (lru_map m) \<union> snd ` set l"
proof (induction l arbitrary: m)
  case Nil
  then show ?case by simp
next
  case (Cons a l)
  obtain h b where a: "a = (h, b)" by (cases a)
  have s: "step (h, b) m = m\<lparr>lru_list := lru_list m @ [(lru_next_node m, b)],
                         lru_map := AList.update b (lru_next_node m) (lru_map m),
                         lru_next_node := lru_next_node m + 1\<rparr>"
    by (simp add: step_def)
  show ?case
    using Cons [of "step (h, b) m"]
    by (simp add: a) (simp add: s dom_update)
qed

lemma fold_lru_indexed:
  fixes l :: "(nat \<times> block_id_t) list"
  defines "step \<equiv> (\<lambda>(_, b) m. m\<lparr>lru_list := lru_list m @ [(lru_next_node m, b)],
                               lru_map := AList.update b (lru_next_node m) (lru_map m),
                               lru_next_node := lru_next_node m + 1\<rparr>)"
  assumes "lru_indexed m" "distinct (map snd l)" "snd ` set (lru_list m) \<inter> snd ` set l = {}"
  shows "lru_indexed (fold step l m)"
  using assms(2-)
proof (induction l arbitrary: m)
  case Nil
  then show ?case by simp
next
  case (Cons a l)
  obtain h b where a: "a = (h, b)" by (cases a)
  let ?m = "step a m"
  from Cons.prems have fresh: "b \<notin> snd ` set (lru_list m)" and b: "b \<notin> snd ` set l"
    and d: "distinct (map snd l)" and disj: "snd ` set (lru_list m) \<inter> snd ` set l = {}"
    by (auto simp: a)
  have 1: "lru_indexed ?m"
    using Cons.prems(1) fresh
    by (force simp: lru_indexed_def step_def a update_conv')
  have 2: "snd ` set (lru_list ?m) \<inter> snd ` set l = {}"
    using disj b by (auto simp: step_def a)
  from Cons.IH [OF 1 d 2] show ?case by simp
qed

lemma ms_ReadData_append: "ms_ReadData (xs @ rest) (length xs) = Inr (xs, rest)"
  by (simp add: ms_ReadData_def)

lemma Read_block_mapping_other:
  "files_metadata (Read_block_mapping p bl m) = files_metadata m
   \<and> lru_list (Read_block_mapping p bl m) = lru_list m
   \<and> lru_map (Read_block_mapping p bl m) = lru_map m
   \<and> lru_next_node (Read_block_mapping p bl m) = lru_next_node m
   \<and> max_cache_size (Read_block_mapping p bl m) = max_cache_size m"
proof (induction bl arbitrary: m)
  case Nil
  then show ?case by simp
next
  case (Cons a bl)
  obtain k info where a: "a = (k, info)" by (cases a)
  show ?case
    by (simp add: a Cons)
qed

lemma Read_block_mapping_sound:
  assumes "map_of (block_mapping (Read_block_mapping p bl m)) key = Some b"
  shows "map_of (block_mapping m) key = Some b
         \<or> (\<exists>(k, info) \<in> set bl. key = (p, block_index info) \<and> b = block_id info)"
  using assms
proof (induction bl arbitrary: m)
  case Nil
  then show ?case by simp
next
  case (Cons a bl)
  obtain k info where a: "a = (k, info)" by (cases a)
  from Cons.IH [of "m\<lparr>block_mapping :=
            AList.update (p, block_index info) (block_id info) (block_mapping m),
          reverse_block_mapping :=
            AList.update (block_id info) (p, block_index info) (reverse_block_mapping m)\<rparr>"]
    Cons.prems
  show ?case
    by (auto simp: a update_conv' split: if_splits)
qed

lemma Read_block_mapping_dom:
  "fst ` set (block_mapping (Read_block_mapping p bl m))
   = fst ` set (block_mapping m) \<union> (\<lambda>(k, info). (p, block_index info)) ` set bl"
proof (induction bl arbitrary: m)
  case Nil
  then show ?case by simp
next
  case (Cons a bl)
  obtain k info where a: "a = (k, info)" by (cases a)
  show ?case
    by (simp add: a Cons dom_update)
qed

lemma Read_block_mapping_reverse_sound:
  assumes "map_of (reverse_block_mapping (Read_block_mapping p bl m)) b = Some key"
  shows "map_of (reverse_block_mapping m) b = Some key
         \<or> (\<exists>(k, info) \<in> set bl. key = (p, block_index info) \<and> b = block_id info)"
  using assms
proof (induction bl arbitrary: m)
  case Nil
  then show ?case by simp
next
  case (Cons a bl)
  obtain k info where a: "a = (k, info)" by (cases a)
  from Cons.IH [of "m\<lparr>block_mapping :=
            AList.update (p, block_index info) (block_id info) (block_mapping m),
          reverse_block_mapping :=
            AList.update (block_id info) (p, block_index info) (reverse_block_mapping m)\<rparr>"]
    Cons.prems
  show ?case
    by (auto simp: a update_conv' split: if_splits)
qed

lemma Read_block_mapping_reverse_dom:
  "fst ` set (reverse_block_mapping (Read_block_mapping p bl m))
   = fst ` set (reverse_block_mapping m) \<union> (\<lambda>(k, info). block_id info) ` set bl"
proof (induction bl arbitrary: m)
  case Nil
  then show ?case by simp
next
  case (Cons a bl)
  obtain k info where a: "a = (k, info)" by (cases a)
  show ?case
    by (simp add: a Cons dom_update)
qed

lemma readableD:
  assumes "readable from_time_t (p, fm)"
  shows "length p < 2 ^ 32" "length (blocks fm) < 2 ^ 32" "keyed_by_id (blocks fm)"
    "last_modified_deprecated fm \<noteq> 0 \<longrightarrow> (\<exists>ts. from_time_t (last_modified_deprecated fm) = Inr ts)"
  using assms by (auto simp: readable_def split: sum.splits)

lemma Read_files_ms:
  assumes "\<forall>f \<in> set files. readable from_time_t f"
  shows "Read_files from_time_t ms_ReadData (concat (map file_layout files) @ rest) 3
           (length files) m
         = Inr (fold (\<lambda>(p, fm) m.
                        Read_block_mapping p (blocks fm)
                          (m\<lparr>files_metadata := AList.update p fm (files_metadata m)\<rparr>))
                  files m, rest)"
  using assms
proof (induction files arbitrary: m)
  case Nil
  then show ?case by (simp add: Read_files.simps)
next
  case (Cons a files)
  obtain p fm where a: "a = (p, fm)" by (cases a)
  from Cons.prems have r: "readable from_time_t (p, fm)"
    and rest: "\<forall>f \<in> set files. readable from_time_t f"
    by (simp_all add: a)
  note d = readableD [OF r]
  have path: "ms_ReadData (string_bytes p @ v3_layout fm @ concat (map file_layout files) @ rest)
                (length p)
              = Inr (string_bytes p, v3_layout fm @ concat (map file_layout files) @ rest)"
    using ms_ReadData_append [of "string_bytes p"] by simp
  have meta: "FileMetadata_Read from_time_t ms_ReadData
                (v3_layout fm @ concat (map file_layout files) @ rest) 3
              = Inr (fm, concat (map file_layout files) @ rest)"
    by (rule FileMetadata_Read_v3_ms [where from_time_t = from_time_t, OF d(2) d(3) d(4)])
  show ?case
    apply (subst Read_files.simps)
    apply (simp add: a file_layout_def unat_u32_length [OF d(1)] path)
    apply (simp add: path meta Cons.IH [OF rest] file_layout_def [symmetric])
    done
qed

lemma fold_files_other:
  fixes files :: "(string \<times> FileMetadata) list"
  defines "step \<equiv> (\<lambda>(p, fm) m.
                      Read_block_mapping p (blocks fm)
                        (m\<lparr>files_metadata := AList.update p fm (files_metadata m)\<rparr>))"
  shows "files_metadata (fold step files m)
           = fold (\<lambda>(p, fm). AList.update p fm) files (files_metadata m)
       \<and> lru_list (fold step files m) = lru_list m
       \<and> lru_map (fold step files m) = lru_map m
       \<and> lru_next_node (fold step files m) = lru_next_node m
       \<and> max_cache_size (fold step files m) = max_cache_size m"
proof (induction files arbitrary: m)
  case Nil
  then show ?case by simp
next
  case (Cons a files)
  obtain p fm where a: "a = (p, fm)" by (cases a)
  have s: "step (p, fm) m
           = Read_block_mapping p (blocks fm)
               (m\<lparr>files_metadata := AList.update p fm (files_metadata m)\<rparr>)"
    by (simp add: step_def)
  show ?case
    using Cons [of "step (p, fm) m"]
    by (simp add: a) (simp add: s Read_block_mapping_other)
qed

lemma fold_files_sound:
  fixes files :: "(string \<times> FileMetadata) list"
  defines "step \<equiv> (\<lambda>(p, fm) m.
                      Read_block_mapping p (blocks fm)
                        (m\<lparr>files_metadata := AList.update p fm (files_metadata m)\<rparr>))"
  assumes "map_of (block_mapping (fold step files m)) key = Some b"
  shows "map_of (block_mapping m) key = Some b
         \<or> (\<exists>(p, fm) \<in> set files. \<exists>(k, info) \<in> set (blocks fm).
               key = (p, block_index info) \<and> b = block_id info)"
  using assms(2)
proof (induction files arbitrary: m)
  case Nil
  then show ?case by simp
next
  case (Cons a files)
  obtain p fm where a: "a = (p, fm)" by (cases a)
  have s: "step (p, fm) m
           = Read_block_mapping p (blocks fm)
               (m\<lparr>files_metadata := AList.update p fm (files_metadata m)\<rparr>)"
    by (simp add: step_def)
  from Cons.prems have "map_of (block_mapping (fold step files (step (p, fm) m))) key = Some b"
    by (simp add: a)
  from Cons.IH [OF this]
  consider "map_of (block_mapping (step (p, fm) m)) key = Some b"
    | "\<exists>(p, fm) \<in> set files. \<exists>(k, info) \<in> set (blocks fm).
         key = (p, block_index info) \<and> b = block_id info"
    by blast
  then show ?case
  proof cases
    case 1
    from Read_block_mapping_sound [OF 1 [unfolded s]] show ?thesis
      by (auto simp: a)
  next
    case 2
    then show ?thesis by (auto simp: a)
  qed
qed

lemma fold_files_dom:
  fixes files :: "(string \<times> FileMetadata) list"
  defines "step \<equiv> (\<lambda>(p, fm) m.
                      Read_block_mapping p (blocks fm)
                        (m\<lparr>files_metadata := AList.update p fm (files_metadata m)\<rparr>))"
  shows "fst ` set (block_mapping (fold step files m))
         = fst ` set (block_mapping m)
           \<union> (\<Union>(p, fm) \<in> set files. (\<lambda>(k, info). (p, block_index info)) ` set (blocks fm))"
proof (induction files arbitrary: m)
  case Nil
  then show ?case by simp
next
  case (Cons a files)
  obtain p fm where a: "a = (p, fm)" by (cases a)
  have s: "step (p, fm) m
           = Read_block_mapping p (blocks fm)
               (m\<lparr>files_metadata := AList.update p fm (files_metadata m)\<rparr>)"
    by (simp add: step_def)
  show ?case
    by (simp add: a Cons) (simp add: s Read_block_mapping_dom Un_assoc)
qed

lemma fold_files_reverse_sound:
  fixes files :: "(string \<times> FileMetadata) list"
  defines "step \<equiv> (\<lambda>(p, fm) m.
                      Read_block_mapping p (blocks fm)
                        (m\<lparr>files_metadata := AList.update p fm (files_metadata m)\<rparr>))"
  assumes "map_of (reverse_block_mapping (fold step files m)) b = Some key"
  shows "map_of (reverse_block_mapping m) b = Some key
         \<or> (\<exists>(p, fm) \<in> set files. \<exists>(k, info) \<in> set (blocks fm).
               key = (p, block_index info) \<and> b = block_id info)"
  using assms(2)
proof (induction files arbitrary: m)
  case Nil
  then show ?case by simp
next
  case (Cons a files)
  obtain p fm where a: "a = (p, fm)" by (cases a)
  have s: "step (p, fm) m
           = Read_block_mapping p (blocks fm)
               (m\<lparr>files_metadata := AList.update p fm (files_metadata m)\<rparr>)"
    by (simp add: step_def)
  from Cons.prems
  have "map_of (reverse_block_mapping (fold step files (step (p, fm) m))) b = Some key"
    by (simp add: a)
  from Cons.IH [OF this]
  consider "map_of (reverse_block_mapping (step (p, fm) m)) b = Some key"
    | "\<exists>(p, fm) \<in> set files. \<exists>(k, info) \<in> set (blocks fm).
         key = (p, block_index info) \<and> b = block_id info"
    by blast
  then show ?case
  proof cases
    case 1
    from Read_block_mapping_reverse_sound [OF 1 [unfolded s]] show ?thesis
      by (auto simp: a)
  next
    case 2
    then show ?thesis by (auto simp: a)
  qed
qed

lemma fold_files_reverse_dom:
  fixes files :: "(string \<times> FileMetadata) list"
  defines "step \<equiv> (\<lambda>(p, fm) m.
                      Read_block_mapping p (blocks fm)
                        (m\<lparr>files_metadata := AList.update p fm (files_metadata m)\<rparr>))"
  shows "fst ` set (reverse_block_mapping (fold step files m))
         = fst ` set (reverse_block_mapping m)
           \<union> (\<Union>(p, fm) \<in> set files. (\<lambda>(k, info). block_id info) ` set (blocks fm))"
proof (induction files arbitrary: m)
  case Nil
  then show ?case by simp
next
  case (Cons a files)
  obtain p fm where a: "a = (p, fm)" by (cases a)
  have s: "step (p, fm) m
           = Read_block_mapping p (blocks fm)
               (m\<lparr>files_metadata := AList.update p fm (files_metadata m)\<rparr>)"
    by (simp add: step_def)
  show ?case
    by (simp add: a Cons) (simp add: s Read_block_mapping_reverse_dom Un_assoc)
qed

lemma registeredD:
  assumes "registered m key b"
  shows "\<exists>fm info. (fst key, fm) \<in> set (files_metadata m) \<and> (b, info) \<in> set (blocks fm)
                   \<and> block_index info = snd key"
  using assms
  by (auto simp: registered_def split: option.splits dest!: map_of_SomeD)

lemma well_formed_inverse:
  assumes wf: "well_formed from_time_t m"
  shows "map_of (block_mapping m) key = Some b \<longleftrightarrow> map_of (reverse_block_mapping m) b = Some key"
proof
  assume "map_of (block_mapping m) key = Some b"
  then have "(key, b) \<in> set (block_mapping m)" by (rule map_of_SomeD)
  with wf have "registered m key b" by (auto simp: well_formed_def)
  from registeredD [OF this] obtain fm info where
    "(fst key, fm) \<in> set (files_metadata m)" "(b, info) \<in> set (blocks fm)"
    "block_index info = snd key"
    by blast
  with wf have "map_of (reverse_block_mapping m) b = Some (fst key, snd key)"
    by (fastforce simp: well_formed_def)
  then show "map_of (reverse_block_mapping m) b = Some key" by simp
next
  assume "map_of (reverse_block_mapping m) b = Some key"
  then have "(b, key) \<in> set (reverse_block_mapping m)" by (rule map_of_SomeD)
  with wf have "registered m key b" by (auto simp: well_formed_def)
  from registeredD [OF this] obtain fm info where
    "(fst key, fm) \<in> set (files_metadata m)" "(b, info) \<in> set (blocks fm)"
    "block_index info = snd key"
    by blast
  with wf have "map_of (block_mapping m) (fst key, snd key) = Some b"
    by (fastforce simp: well_formed_def)
  then show "map_of (block_mapping m) key = Some b" by simp
qed

lemma well_formed_entry:
  assumes wf: "well_formed from_time_t m"
    and "(p, fm) \<in> set (files_metadata m)" "(k, info) \<in> set (blocks fm)"
  shows "block_id info = k"
    "map_of (block_mapping m) (p, block_index info) = Some k"
    "map_of (reverse_block_mapping m) k = Some (p, block_index info)"
proof -
  from wf assms(2) have "readable from_time_t (p, fm)" by (auto simp: well_formed_def)
  from readableD(3) [OF this] assms(3) show "block_id info = k"
    by (auto simp: keyed_by_id_def)
  from wf assms(2,3) show "map_of (block_mapping m) (p, block_index info) = Some k"
    "map_of (reverse_block_mapping m) k = Some (p, block_index info)"
    by (fastforce simp: well_formed_def)+
qed

lemma read_back_mappings:
  fixes m :: MetadataManager
  defines "step \<equiv> (\<lambda>(p, fm) m.
                      Read_block_mapping p (blocks fm)
                        (m\<lparr>files_metadata := AList.update p fm (files_metadata m)\<rparr>))"
  assumes wf: "well_formed from_time_t m"
    and empty: "block_mapping m1 = []" "reverse_block_mapping m1 = []"
  shows "map_of (block_mapping (fold step (files_metadata m) m1)) = map_of (block_mapping m)"
    and "map_of (reverse_block_mapping (fold step (files_metadata m) m1))
         = map_of (reverse_block_mapping m)"
proof -
  let ?F = "fold step (files_metadata m) m1"
  show "map_of (block_mapping ?F) = map_of (block_mapping m)"
  proof (rule ext)
    fix key
    show "map_of (block_mapping ?F) key = map_of (block_mapping m) key"
    proof (cases "map_of (block_mapping ?F) key")
      case (Some b)
      from fold_files_sound [OF Some [unfolded step_def]] empty(1)
      obtain p fm k info where "(p, fm) \<in> set (files_metadata m)" "(k, info) \<in> set (blocks fm)"
        "key = (p, block_index info)" "b = block_id info"
        by auto
      with well_formed_entry [OF wf this(1,2)] Some show ?thesis by simp
    next
      case None
      then have out: "key \<notin> fst ` set (block_mapping ?F)"
        by (simp add: map_of_eq_None_iff)
      have "map_of (block_mapping m) key = None"
      proof (rule ccontr)
        assume "map_of (block_mapping m) key \<noteq> None"
        then obtain b where "map_of (block_mapping m) key = Some b" by blast
        then have "(key, b) \<in> set (block_mapping m)" by (rule map_of_SomeD)
        with wf have "registered m key b" by (auto simp: well_formed_def)
        from registeredD [OF this] obtain fm info where
          "(fst key, fm) \<in> set (files_metadata m)" "(b, info) \<in> set (blocks fm)"
          "block_index info = snd key"
          by blast
        then have "key \<in> (\<Union>(p, fm) \<in> set (files_metadata m).
                            (\<lambda>(k, info). (p, block_index info)) ` set (blocks fm))"
          by force
        with out show False
          unfolding step_def fold_files_dom by blast
      qed
      with None show ?thesis by simp
    qed
  qed
  show "map_of (reverse_block_mapping ?F) = map_of (reverse_block_mapping m)"
  proof (rule ext)
    fix b
    show "map_of (reverse_block_mapping ?F) b = map_of (reverse_block_mapping m) b"
    proof (cases "map_of (reverse_block_mapping ?F) b")
      case (Some key)
      from fold_files_reverse_sound [OF Some [unfolded step_def]] empty(2)
      obtain p fm k info where e: "(p, fm) \<in> set (files_metadata m)" "(k, info) \<in> set (blocks fm)"
        "key = (p, block_index info)" "b = block_id info"
        by auto
      with well_formed_entry [OF wf this(1,2)] Some show ?thesis by simp
    next
      case None
      then have out: "b \<notin> fst ` set (reverse_block_mapping ?F)"
        by (simp add: map_of_eq_None_iff)
      have "map_of (reverse_block_mapping m) b = None"
      proof (rule ccontr)
        assume "map_of (reverse_block_mapping m) b \<noteq> None"
        then obtain key where "map_of (reverse_block_mapping m) b = Some key" by blast
        then have "(b, key) \<in> set (reverse_block_mapping m)" by (rule map_of_SomeD)
        with wf have "registered m key b" by (auto simp: well_formed_def)
        from registeredD [OF this] obtain fm info where
          e: "(fst key, fm) \<in> set (files_metadata m)" "(b, info) \<in> set (blocks fm)"
          "block_index info = snd key"
          by blast
        from well_formed_entry(1) [OF wf e(1,2)] e(1,2)
        have "b \<in> (\<Union>(p, fm) \<in> set (files_metadata m).
                            (\<lambda>(k, info). block_id info) ` set (blocks fm))"
          by force
        with out show False
          unfolding step_def fold_files_reverse_dom by blast
      qed
      with None show ?thesis by simp
    qed
  qed
qed

text \<open>
  C5.  For a manager in state \<open>m\<close>, \<open>WriteMetadata\<close> followed by \<open>ReadMetadata\<close> at version 3,
  the version of the layout that \<open>WriteMetadata\<close> writes, gives the state back: the same
  \<open>files_metadata\<close> (sizes, times, legacy times and blocks with index, id and checksum), the
  same \<open>block_mapping\<close> and \<open>reverse_block_mapping\<close> as maps, each the inverse of the other,
  and an LRU list of the same block ids in the same order.  When no id is twice in the LRU
  list, \<open>lru_map\<close> holds for every id of the list its node, and nothing else.

  The manager that reads may be in any state \<open>m0\<close>.  The stream is the in-memory stream,
  and \<open>m\<close> is a state as the operations of the manager keep it.
\<close>

theorem C5_metadata_round_trip:
  assumes wf: "well_formed from_time_t m"
  shows "\<exists>bytes m'.
           WriteMetadata ms_WriteData [] m = Inr bytes
         \<and> ReadMetadata from_time_t ms_ReadData bytes 3 m0 = Inr (m', [])
         \<and> files_metadata m' = files_metadata m
         \<and> map_of (block_mapping m') = map_of (block_mapping m)
         \<and> map_of (reverse_block_mapping m') = map_of (reverse_block_mapping m)
         \<and> (\<forall>key b. map_of (block_mapping m') key = Some b
                     \<longleftrightarrow> map_of (reverse_block_mapping m') b = Some key)
         \<and> map snd (lru_list m') = map snd (lru_list m)
         \<and> (distinct (map snd (lru_list m)) \<longrightarrow>
              lru_indexed m' \<and> fst ` set (lru_map m') = snd ` set (lru_list m))"
proof -
  define step where "step = (\<lambda>(p, fm) (m :: MetadataManager).
                      Read_block_mapping p (blocks fm)
                        (m\<lparr>files_metadata := AList.update p fm (files_metadata m)\<rparr>))"
  define lstep where "lstep = (\<lambda>(_ :: nat, b) (m :: MetadataManager).
                        m\<lparr>lru_list := lru_list m @ [(lru_next_node m, b)],
                          lru_map := AList.update b (lru_next_node m) (lru_map m),
                          lru_next_node := lru_next_node m + 1\<rparr>)"
  define m1 where "m1 = m0\<lparr>files_metadata := [], block_mapping := [], reverse_block_mapping := []\<rparr>"
  define F where "F = fold step (files_metadata m) m1"
  define F0 where "F0 = F\<lparr>lru_list := [], lru_map := []\<rparr>"
  define G where "G = fold lstep (lru_list m) F0"
  from wf have paths: "\<forall>(p, fm) \<in> set (files_metadata m). length p < 2 ^ 32"
    and files: "\<forall>f \<in> set (files_metadata m). readable from_time_t f"
    and nfiles: "length (files_metadata m) < 2 ^ 64"
    and nlru: "length (lru_list m) < 2 ^ 64"
    and dist: "distinct (map fst (files_metadata m))"
    by (auto simp: well_formed_def readable_def)
  have written: "WriteMetadata ms_WriteData [] m = Inr (manager_layout m)"
    using WriteMetadata_ms [OF paths, of "[]"] by simp
  have r1: "Read_files from_time_t ms_ReadData
              (concat (map file_layout (files_metadata m))
               @ u64_bytes (word_of_nat (length (lru_list m)))
               @ concat (map (\<lambda>(_, b). u64_bytes b) (lru_list m))) 3
              (length (files_metadata m)) m1
            = Inr (F, u64_bytes (word_of_nat (length (lru_list m)))
                      @ concat (map (\<lambda>(_, b). u64_bytes b) (lru_list m)))"
    unfolding F_def step_def by (rule Read_files_ms [OF files])
  have r2: "Read_lru ms_ReadData (concat (map (\<lambda>(_, b). u64_bytes b) (lru_list m)))
              (length (lru_list m)) F0 = Inr (G, [])"
    using Read_lru_ms [of "lru_list m" "[]" F0] by (simp add: G_def lstep_def)
  have read_back: "ReadMetadata from_time_t ms_ReadData (manager_layout m) 3 m0 = Inr (G, [])"
    by (simp add: ReadMetadata_def manager_layout_def unat_u64_length [OF nfiles]
        unat_u64_length [OF nlru] m1_def [symmetric] r1 F0_def [symmetric] r2)
  note G = fold_lru_other [of "lru_list m" F0, folded lstep_def G_def]
  note Fo = fold_files_other [of "files_metadata m" m1, folded step_def F_def]
  have "files_metadata G = fold (\<lambda>(p, fm). AList.update p fm) (files_metadata m) []"
    using G Fo by (simp add: F0_def m1_def)
  also have "\<dots> = files_metadata m"
    using fold_update_distinct [OF dist, of "[]"] by simp
  finally have c1: "files_metadata G = files_metadata m" .
  have maps: "map_of (block_mapping F) = map_of (block_mapping m)"
    "map_of (reverse_block_mapping F) = map_of (reverse_block_mapping m)"
    unfolding F_def step_def
    by (rule read_back_mappings [OF wf]; simp add: m1_def)+
  have c2: "map_of (block_mapping G) = map_of (block_mapping m)"
    and c3: "map_of (reverse_block_mapping G) = map_of (reverse_block_mapping m)"
    using G maps by (simp_all add: F0_def)
  have c4: "\<forall>key b. map_of (block_mapping G) key = Some b
                     \<longleftrightarrow> map_of (reverse_block_mapping G) b = Some key"
    unfolding c2 c3 using well_formed_inverse [OF wf] by blast
  have c5: "map snd (lru_list G) = map snd (lru_list m)"
    using G by (simp add: F0_def)
  have c6: "lru_indexed G \<and> fst ` set (lru_map G) = snd ` set (lru_list m)"
    if d: "distinct (map snd (lru_list m))"
  proof
    have "lru_indexed F0" by (simp add: F0_def lru_indexed_def)
    from fold_lru_indexed [OF this d] show "lru_indexed G"
      by (simp add: G_def lstep_def F0_def)
    show "fst ` set (lru_map G) = snd ` set (lru_list m)"
      using G by (simp add: F0_def)
  qed
  from written read_back c1 c2 c3 c4 c5 c6 show ?thesis by blast
qed

text \<open>The theorem at work: the sample manager is written and read back by a new manager.\<close>

lemma sample_manager_value:
  "sample_manager =
     \<lparr>block_mapping = [((''f'', 0), 0), ((''f'', 1), 1)],
      reverse_block_mapping = [(0, (''f'', 0)), (1, (''f'', 1))],
      files_metadata =
        [(''f'', \<lparr>file_size = 100,
                  blocks = [(0, \<lparr>block_index = 0, block_id = 0, checksum = 16\<rparr>),
                            (1, \<lparr>block_index = 1, block_id = 1, checksum = 16\<rparr>)],
                  last_modified_deprecated = 0,
                  last_modified = 5\<rparr>)],
      max_cache_size = 0x7FFFFFFFFFFFFFFF,
      lru_list = [(1, 1), (0, 0)],
      lru_map = [(0, 0), (1, 1)],
      lru_next_node = 2\<rparr>"
  by code_simp

lemma sample_manager_well_formed: "well_formed (FromTimeT sum_host) sample_manager"
  by (simp add: sample_manager_value well_formed_def readable_def keyed_by_id_def registered_def)

theorem C5_metadata_round_trip_witness:
  "\<exists>bytes m'.
     WriteMetadata ms_WriteData [] sample_manager = Inr bytes
   \<and> ReadMetadata (FromTimeT sum_host) ms_ReadData bytes 3 MetadataManager_new = Inr (m', [])
   \<and> files_metadata m' = files_metadata sample_manager
   \<and> map_of (block_mapping m') = map_of (block_mapping sample_manager)
   \<and> map_of (reverse_block_mapping m') = map_of (reverse_block_mapping sample_manager)
   \<and> map snd (lru_list m') = [1, 0]
   \<and> lru_indexed m'"
proof -
  have ids: "map snd (lru_list sample_manager) = [1, 0]"
    and d: "distinct (map snd (lru_list sample_manager))"
    by (simp_all add: sample_manager_value)
  from C5_metadata_round_trip [OF sample_manager_well_formed, of MetadataManager_new] d
  obtain bytes m' where
    "WriteMetadata ms_WriteData [] sample_manager = Inr bytes"
    "ReadMetadata (FromTimeT sum_host) ms_ReadData bytes 3 MetadataManager_new = Inr (m', [])"
    "files_metadata m' = files_metadata sample_manager"
    "map_of (block_mapping m') = map_of (block_mapping sample_manager)"
    "map_of (reverse_block_mapping m') = map_of (reverse_block_mapping sample_manager)"
    "map snd (lru_list m') = map snd (lru_list sample_manager)"
    "lru_indexed m'"
    by blast
  with ids show ?thesis by auto
qed

text \<open>
  The same round trip on the streams the cache itself uses, the chained writer and reader
  of the block store: the cache of two blocks is flushed, and a new manager reads the chain
  at version 3.
\<close>

lemma round_trip_over_chained_blocks:
  "bnd two_blocks (\<lambda>c.
   bnd (Cache_Flush c) (\<lambda>c1.
   bnd (GetMetaBlockID (block_mgr c1)) (\<lambda>(meta, bm).
   bnd (MetadataReader_at bm meta) (\<lambda>reader.
   bnd (ReadMetadata (FromTimeT sum_host) (mr_ReadData bm) reader 3 MetadataManager_new)
     (\<lambda>(mm, _).
        Inr (files_metadata mm = files_metadata (metadata_mgr c),
             block_mapping mm = block_mapping (metadata_mgr c),
             reverse_block_mapping mm = reverse_block_mapping (metadata_mgr c),
             map snd (lru_list mm) = map snd (lru_list (metadata_mgr c)),
             map snd (lru_list mm)))))))
   = Inr (True, True, True, True, [1, 0])"
  by code_simp

section \<open>The version in the header\<close>


text \<open>
  The metadata manager writes the version-3 layout, and \<open>Open\<close> reads the chain with the
  version found in the header.  Read as version 2, the timestamp of the first file is taken
  for the length of the LRU list: a cache holding blocks 1 and 0 in that order comes back
  from close and open with an empty LRU list.
\<close>

lemma reopen_reads_v3_layout_as_v2:
  "map_sum id
     (\<lambda>c. (map snd (lru_list (metadata_mgr c)),
           map_sum id (\<lambda>c'. map snd (lru_list (metadata_mgr c')))
             (bnd (Cache_Close c) (\<lambda>c1. Cache_Open sum_host c1 ''cache.bin''))))
     two_blocks
   = Inr ([1, 0], Inr [])"
  by code_simp

section \<open>Freshness check of a caching file handle\<close>

lemma blocks_registeredD:
  assumes "blocks_registered m p" "map_of (files_metadata m) p = Some fm"
    "x \<in> fst ` set (blocks fm)"
  shows "\<exists>idx. map_of (reverse_block_mapping m) x = Some (p, idx)"
  using assms unfolding blocks_registered_def
  by (cases "map_of (reverse_block_mapping m) x") (auto split: option.splits)

lemma UnregisterBlock_keeps_registered:
  assumes "\<forall>fm. map_of (files_metadata m) p = Some fm \<longrightarrow>
             (\<forall>x \<in> fst ` set (blocks fm). x \<in> set (b # rest)
                \<and> (\<exists>idx. map_of (reverse_block_mapping m) x = Some (p, idx)))"
  shows "\<forall>fm. map_of (files_metadata (UnregisterBlock m b)) p = Some fm \<longrightarrow>
             (\<forall>x \<in> fst ` set (blocks fm). x \<in> set rest
                \<and> (\<exists>idx. map_of (reverse_block_mapping (UnregisterBlock m b)) x = Some (p, idx)))"
proof (intro allI impI ballI)
  fix fm x
  assume fm: "map_of (files_metadata (UnregisterBlock m b)) p = Some fm"
    and x: "x \<in> fst ` set (blocks fm)"
  show "x \<in> set rest
      \<and> (\<exists>idx. map_of (reverse_block_mapping (UnregisterBlock m b)) x = Some (p, idx))"
  proof (cases "map_of (reverse_block_mapping m) b")
    case None
    then have same: "files_metadata (UnregisterBlock m b) = files_metadata m"
      "reverse_block_mapping (UnregisterBlock m b) = reverse_block_mapping m"
      by (auto simp: UnregisterBlock_def Let_def split: option.splits)
    with assms fm x None show ?thesis by fastforce
  next
    case (Some key)
    obtain p' i' where key: "key = (p', i')" by (cases key)
    have rev: "reverse_block_mapping (UnregisterBlock m b)
        = AList.delete b (reverse_block_mapping m)"
      using Some by (auto simp: UnregisterBlock_def Let_def split: option.splits)
    show ?thesis
    proof (cases "p' = p")
      case True
      then obtain fm0 where fm0: "map_of (files_metadata m) p = Some fm0"
        and fm_eq: "fm = fm0\<lparr>blocks := AList.delete b (blocks fm0)\<rparr>"
        using fm Some key
        by (auto simp: UnregisterBlock_def Let_def delete_conv' update_conv'
            split: option.splits if_splits)
      from x fm_eq have xb: "x \<noteq> b" and x0: "x \<in> fst ` set (blocks fm0)"
        by (auto simp: AList.delete_eq)
      with assms fm0 rev show ?thesis by (fastforce simp: delete_conv')
    next
      case False
      then have fm0: "map_of (files_metadata m) p = Some fm"
        using fm Some key
        by (auto simp: UnregisterBlock_def Let_def delete_conv' update_conv'
            split: option.splits if_splits)
      with assms x have "x \<in> set (b # rest)"
        and "\<exists>idx. map_of (reverse_block_mapping m) x = Some (p, idx)" by blast+
      with Some key False rev show ?thesis by (auto simp: delete_conv')
    qed
  qed
qed

lemma Evict_loop_empties:
  assumes "Evict_loop bm m bs ev = Inr (bm', m', ev')"
    and "\<forall>fm. map_of (files_metadata m) p = Some fm \<longrightarrow>
             (\<forall>x \<in> fst ` set (blocks fm). x \<in> set bs
                \<and> (\<exists>idx. map_of (reverse_block_mapping m) x = Some (p, idx)))"
  shows "\<forall>fm. map_of (files_metadata m') p = Some fm \<longrightarrow> blocks fm = []"
  using assms
proof (induction bs arbitrary: bm m ev)
  case Nil
  then show ?case by (cases "blocks (the (map_of (files_metadata m') p))") auto
next
  case (Cons b rest)
  from Cons.prems(1) obtain bm1 where
    "Evict_loop bm1 (UnregisterBlock m b) rest True = Inr (bm', m', ev')"
    by (auto simp: bnd_eq_Inr_iff)
  then show ?case
    using Cons.IH UnregisterBlock_keeps_registered [OF Cons.prems(2)] by blast
qed

lemma Cache_Evict_empties:
  assumes ev: "Cache_Evict c p = Inr c1"
    and reg: "blocks_registered (metadata_mgr c) p"
  shows "\<forall>fm. map_of (files_metadata (metadata_mgr c1)) p = Some fm \<longrightarrow> blocks fm = []"
proof (cases "RetrieveFileMetadata c p")
  case None
  with ev have "c1 = c" by (simp add: Cache_Evict_def)
  with None show ?thesis by (simp add: RetrieveFileMetadata_def GetFileMetadata_def)
next
  case (Some md)
  then have md: "map_of (files_metadata (metadata_mgr c)) p = Some md"
    by (simp add: RetrieveFileMetadata_def GetFileMetadata_def)
  from ev Some obtain bm mm evicted where
    loop: "Evict_loop (block_mgr c) (metadata_mgr c) (map fst (blocks md)) False
             = Inr (bm, mm, evicted)"
    and c1: "c1 = SetDirty (c\<lparr>block_mgr := bm, metadata_mgr := mm\<rparr>) evicted"
    by (auto simp: Cache_Evict_def bnd_eq_Inr_iff)
  have "\<forall>fm. map_of (files_metadata (metadata_mgr c)) p = Some fm \<longrightarrow>
          (\<forall>x \<in> fst ` set (blocks fm). x \<in> set (map fst (blocks md))
             \<and> (\<exists>idx. map_of (reverse_block_mapping (metadata_mgr c)) x = Some (p, idx)))"
    using blocks_registeredD [OF reg] md by auto
  from Evict_loop_empties [OF loop this] c1 show ?thesis by simp
qed

lemma refresh_entry:
  assumes "\<forall>fm. map_of (files_metadata (metadata_mgr c1)) p = Some fm \<longrightarrow> P (blocks fm)"
    and "P []"
  shows "\<exists>fm. RetrieveFileMetadata (StoreFileSize (StoreFileLastModified c1 p ts) p sz) p = Some fm
           \<and> file_size fm = sz \<and> last_modified fm = ts \<and> P (blocks fm)"
  using assms
  by (auto simp: RetrieveFileMetadata_def GetFileMetadata_def StoreFileSize_def
      StoreFileLastModified_def SetFileSize_def SetFileLastModified_def file_entry_def
      update_conv' FileMetadata_default_def split: option.splits)

text \<open>
  C8.  When a caching file handle is constructed for a path that has a metadata entry and
  \<open>data_mutable\<close> is true, the entry is evicted and its size and modification time are
  refreshed exactly when the source changed in the sense of \<open>changed\<close>; otherwise the
  entry stays as it is.

  The underlying file system is taken to answer both requests.  In the refreshed entry the
  size and the time are the underlying ones, and no block is left when every block of the
  old entry was registered under this path.
\<close>

theorem C8_freshness_check:
  assumes entry: "RetrieveFileMetadata c file_path = Some md"
    and lm: "GetFileLastModifiedUnderlying u = Inr underlying_last_modified"
    and sz: "GetFileSizeUnderlying u = Inr underlying_filesize"
  shows "CacheFileHandle_new c file_path True u =
           (if changed md underlying_last_modified underlying_filesize
            then bnd (Cache_Evict (AddRef c) file_path) (\<lambda>c1.
                   Inr (StoreFileSize (StoreFileLastModified c1 file_path underlying_last_modified)
                          file_path underlying_filesize))
            else Inr (AddRef c))
       \<and> (\<forall>c'. CacheFileHandle_new c file_path True u = Inr c' \<longrightarrow>
             (if changed md underlying_last_modified underlying_filesize
              then \<exists>fm. RetrieveFileMetadata c' file_path = Some fm
                     \<and> file_size fm = underlying_filesize
                     \<and> last_modified fm = underlying_last_modified
                     \<and> (blocks_registered (metadata_mgr c) file_path \<longrightarrow> blocks fm = [])
              else RetrieveFileMetadata c' file_path = Some md))"
proof -
  let ?new = "CacheFileHandle_new c file_path True u"
  let ?ch = "changed md underlying_last_modified underlying_filesize"
  have entry': "RetrieveFileMetadata (AddRef c) file_path = Some md"
    using entry by (simp add: RetrieveFileMetadata_def AddRef_def)
  have decide: "source_changed md u = Inr ?ch"
    using lm sz by (auto simp: source_changed_def changed_def epoch_def)
  have run: "?new =
           (if ?ch
            then bnd (Cache_Evict (AddRef c) file_path) (\<lambda>c1.
                   Inr (StoreFileSize (StoreFileLastModified c1 file_path underlying_last_modified)
                          file_path underlying_filesize))
            else Inr (AddRef c))"
    using entry' decide lm sz by (simp add: CacheFileHandle_new_def Let_def)
  have effect: "if ?ch
              then \<exists>fm. RetrieveFileMetadata c' file_path = Some fm
                     \<and> file_size fm = underlying_filesize
                     \<and> last_modified fm = underlying_last_modified
                     \<and> (blocks_registered (metadata_mgr c) file_path \<longrightarrow> blocks fm = [])
              else RetrieveFileMetadata c' file_path = Some md"
    if ret: "?new = Inr c'" for c'
  proof (cases ?ch)
    case False
    with run ret entry' show ?thesis by simp
  next
    case True
    with run ret have
      "bnd (Cache_Evict (AddRef c) file_path) (\<lambda>c1.
         Inr (StoreFileSize (StoreFileLastModified c1 file_path underlying_last_modified)
                file_path underlying_filesize)) = Inr c'"
      by simp
    then obtain c1 where ev: "Cache_Evict (AddRef c) file_path = Inr c1"
      and c': "c' = StoreFileSize (StoreFileLastModified c1 file_path underlying_last_modified)
                      file_path underlying_filesize"
      by (auto simp: bnd_eq_Inr_iff)
    have "\<forall>fm. map_of (files_metadata (metadata_mgr c1)) file_path = Some fm \<longrightarrow>
            (blocks_registered (metadata_mgr c) file_path \<longrightarrow> blocks fm = [])"
      using Cache_Evict_empties [OF ev] by (simp add: AddRef_def)
    from refresh_entry [where P = "\<lambda>bl. blocks_registered (metadata_mgr c) file_path \<longrightarrow> bl = []",
        OF this]
    show ?thesis using True c' by simp
  qed
  from run effect show ?thesis by blast
qed

text \<open>
  The theorem at work: the cache holds blocks 0 and 1 of \<open>f\<close> with modification time 0; the
  underlying file now reports time 5 and 100 bytes.  Construction evicts both blocks and
  the entry carries the new size and time.
\<close>

theorem C8_freshness_check_witness:
  "\<exists>c c' fm. two_blocks = Inr c
     \<and> CacheFileHandle_new c ''f'' True newer_source = Inr c'
     \<and> RetrieveFileMetadata c' ''f'' = Some fm
     \<and> file_size fm = 100 \<and> last_modified fm = 5 \<and> blocks fm = []
     \<and> free_list (block_mgr c') = [0, 1]"
proof -
  have "case two_blocks of
          Inl _ \<Rightarrow> False
        | Inr c \<Rightarrow>
            blocks_registered (metadata_mgr c) ''f''
            \<and> (case CacheFileHandle_new c ''f'' True newer_source of
                  Inl _ \<Rightarrow> False
                | Inr c' \<Rightarrow> free_list (block_mgr c') = [0, 1])
            \<and> (case RetrieveFileMetadata c ''f'' of
                  None \<Rightarrow> False
                | Some md \<Rightarrow> changed md 5 100)"
    by code_simp
  from case_InrD [OF this] obtain c where run: "two_blocks = Inr c"
    and reg: "blocks_registered (metadata_mgr c) ''f''"
    and r1: "case CacheFileHandle_new c ''f'' True newer_source of
               Inl _ \<Rightarrow> False
             | Inr c' \<Rightarrow> free_list (block_mgr c') = [0, 1]"
    and r2: "case RetrieveFileMetadata c ''f'' of
               None \<Rightarrow> False
             | Some md \<Rightarrow> changed md 5 100"
    by blast
  from case_InrD [OF r1] obtain c' where
    new: "CacheFileHandle_new c ''f'' True newer_source = Inr c'"
    and fl: "free_list (block_mgr c') = [0, 1]"
    by blast
  from case_SomeD [OF r2] obtain md where entry: "RetrieveFileMetadata c ''f'' = Some md"
    and ch: "changed md 5 100"
    by blast
  have lm: "GetFileLastModifiedUnderlying newer_source = Inr 5"
    and sz: "GetFileSizeUnderlying newer_source = Inr 100"
    by (simp_all add: newer_source_def)
  from C8_freshness_check [OF entry lm sz] new ch reg
  obtain fm where "RetrieveFileMetadata c' ''f'' = Some fm" "file_size fm = 100"
    "last_modified fm = 5" "blocks fm = []"
    by auto
  with run new fl show ?thesis by blast
qed

section \<open>The dirty flag\<close>

text \<open>
  C9.  The claim: only \<open>flush\<close>, \<open>close\<close> and \<open>clear\<close> clear the dirty flag; every other
  operation, \<open>evict(path)\<close> on an entry without blocks included, sets it or leaves it as it
  is.

  \<open>Evict\<close> ends with \<open>SetDirty(evicted)\<close>, and \<open>SetDirty(false)\<close> resets the counter.
  After \<open>StoreFileSize\<close> created an entry without blocks the counter is 1; \<open>Evict\<close> of that
  path returns with the counter 0.
\<close>

theorem C9_evict_without_blocks_clears_dirty:
  "map_sum id (\<lambda>c. (dirty c, map_sum id dirty (Cache_Evict c ''f'')))
     (bnd (Cache_new [] 16) (\<lambda>c0. Inr (StoreFileSize c0 ''f'' 1)))
   = Inr (1, Inr 0)"
  by code_simp

section \<open>The first flush after \<open>Open\<close>\<close>





end
